theory Spec2Isabelle
  imports Complex_Main
begin

section \<open>The detection request pipeline of \<^verbatim>\<open>app.py\<close>\<close>

text \<open>
  The development embeds the upload pipeline of the Flask application
  (\<^verbatim>\<open>allowed_file\<close>, \<^verbatim>\<open>encode_image_to_base64\<close>, \<^verbatim>\<open>upload_file\<close>, the module-level
  loading of the model) and the threat level the embedded page script \<^verbatim>\<open>showResults\<close>
  derives from a response.

  Conventions.
  \<^item> A Python \<^verbatim>\<open>str\<close> is a \<^typ>\<open>string\<close>; file contents and raster images are byte strings,
    also of type \<^typ>\<open>string\<close>.
  \<^item> The floating-point numbers the handler passes on (confidences, box coordinates, class
    indices) are values of type \<^typ>\<open>real\<close>. The handler copies them and applies \<^verbatim>\<open>int\<close> to
    the class index; it does no arithmetic on them, and the development does none.
  \<^item> Library functions the code calls but does not define are parameters: the loaded
    model is a function held by the application state, and \<^verbatim>\<open>secure_filename\<close>, the clock,
    \<^verbatim>\<open>file.save\<close>, \<^verbatim>\<open>cv2.imwrite\<close> and \<^verbatim>\<open>base64.b64encode\<close> are fields of an environment
    record. Every theorem holds for each behaviour they may have.
  \<^item> The effects of a request are explicit: the handler takes the world (the files on disk
    and a log of writes and model invocations) and returns the response with the new
    world. An exception is a value: a call that may raise returns \<open>Inl\<close> of the
    exception's text. A \<^verbatim>\<open>file.save\<close> that raises is taken to leave no file behind.
  \<^item> Paths are built with the POSIX separator. Output on the console (\<^verbatim>\<open>print\<close>,
    \<^verbatim>\<open>traceback.print_exc\<close>) is not modelled.
\<close>

subsection \<open>Upload validator: \<^verbatim>\<open>allowed_file\<close>\<close>

text \<open>\<^verbatim>\<open>ALLOWED_EXTENSIONS = {'png', 'jpg', 'jpeg', 'bmp', 'tiff', 'tif'}\<close>\<close>

definition ALLOWED_EXTENSIONS :: "string set" where
  "ALLOWED_EXTENSIONS = {''png'', ''jpg'', ''jpeg'', ''bmp'', ''tiff'', ''tif''}"

text \<open>
  \<^verbatim>\<open>str.lower()\<close>: the letters \<^verbatim>\<open>A\<close> to \<^verbatim>\<open>Z\<close> (codes 65 to 90) move to \<^verbatim>\<open>a\<close> to \<^verbatim>\<open>z\<close>, every
  other byte stays. On text outside ASCII Python lowers further code points, but none of
  them to a letter that occurs in an allowed extension, so membership in
  \<open>ALLOWED_EXTENSIONS\<close> is decided by the ASCII letters alone.
\<close>

definition lower_char :: "char \<Rightarrow> char" where
  "lower_char c =
     (if 65 \<le> (of_char c :: nat) \<and> (of_char c :: nat) \<le> 90
      then char_of ((of_char c :: nat) + 32) else c)"

definition lower :: "string \<Rightarrow> string" where
  "lower s = map lower_char s"

text \<open>
  \<^verbatim>\<open>s.rsplit(sep, 1)\<close> for a one-character separator: the one-element list \<^verbatim>\<open>[s]\<close> when
  \<^verbatim>\<open>sep\<close> does not occur, otherwise the text before the last \<^verbatim>\<open>sep\<close> and the text after it.
\<close>

definition rsplit1 :: "char \<Rightarrow> string \<Rightarrow> string list" where
  "rsplit1 sep s =
     (if sep \<in> set s
      then [rev (tl (dropWhile (\<lambda>c. c \<noteq> sep) (rev s))),
            rev (takeWhile (\<lambda>c. c \<noteq> sep) (rev s))]
      else [s])"

text \<open>
  \<^verbatim>\<open>return '.' in filename and filename.rsplit('.', 1)[1].lower() in ALLOWED_EXTENSIONS\<close>.
  Python evaluates the index \<^verbatim>\<open>[1]\<close> only when the filename contains a dot, and then the
  list has two elements (lemma \<open>rsplit1_length\<close>), so the access never raises.
\<close>

definition allowed_file :: "string \<Rightarrow> bool" where
  "allowed_file filename \<longleftrightarrow>
     CHR ''.'' \<in> set filename \<and>
     lower (rsplit1 CHR ''.'' filename ! 1) \<in> ALLOWED_EXTENSIONS"

subsection \<open>The page script \<^verbatim>\<open>showResults\<close>\<close>

text \<open>
  The script derives the threat level from the \<open>detection_count\<close> of a response. Its
  average confidence is computed in IEEE double arithmetic, which this development does
  not model.
\<close>

datatype threat = LOW | MEDIUM | HIGH

text \<open>
  \<^verbatim>\<open>
  let threatLevel = 'LOW';
  if (data.detection_count >= 5) { threatLevel = 'HIGH'; }
  else if (data.detection_count >= 2) { threatLevel = 'MEDIUM'; }
  \<close>
\<close>

definition threat_level :: "int \<Rightarrow> threat" where
  "threat_level detection_count =
     (if detection_count \<ge> 5 then HIGH
      else if detection_count \<ge> 2 then MEDIUM
      else LOW)"

subsection \<open>Storage names\<close>

text \<open>
  \<^verbatim>\<open>datetime.now()\<close>: the fields of a Python \<^verbatim>\<open>datetime\<close>. The class keeps every field in
  its range, which \<open>valid_datetime\<close> records; the year of a running server has four digits.
\<close>

record datetime =
  year :: nat
  month :: nat
  day :: nat
  hour :: nat
  minute :: nat
  second :: nat
  microsecond :: nat

definition valid_datetime :: "datetime \<Rightarrow> bool" where
  "valid_datetime t \<longleftrightarrow>
     1000 \<le> year t \<and> year t \<le> 9999 \<and> 1 \<le> month t \<and> month t \<le> 12 \<and>
     1 \<le> day t \<and> day t \<le> 31 \<and> hour t \<le> 23 \<and> minute t \<le> 59 \<and> second t \<le> 59 \<and>
     microsecond t \<le> 999999"

definition digit_char :: "nat \<Rightarrow> char" where
  "digit_char d = char_of (48 + d)"

text \<open>The decimal digits of a number, most significant first.\<close>

fun dec :: "nat \<Rightarrow> string" where
  "dec n = (if n < 10 then [digit_char n] else dec (n div 10) @ [digit_char (n mod 10)])"

declare dec.simps [simp del]

text \<open>Padding with zeros on the left up to a width, as the conversions \<^verbatim>\<open>%02d\<close> and \<^verbatim>\<open>%06d\<close> do.\<close>

definition zfill :: "nat \<Rightarrow> string \<Rightarrow> string" where
  "zfill w s = replicate (w - length s) CHR ''0'' @ s"

text \<open>\<^verbatim>\<open>strftime('%Y%m%d_%H%M%S_%f')\<close>\<close>

definition strftime :: "datetime \<Rightarrow> string" where
  "strftime t =
     zfill 4 (dec (year t)) @ zfill 2 (dec (month t)) @ zfill 2 (dec (day t)) @ ''_'' @
     zfill 2 (dec (hour t)) @ zfill 2 (dec (minute t)) @ zfill 2 (dec (second t)) @ ''_'' @
     zfill 6 (dec (microsecond t))"

definition UPLOAD_FOLDER :: string where
  "UPLOAD_FOLDER = ''uploads''"

definition RESULTS_FOLDER :: string where
  "RESULTS_FOLDER = ''results''"

text \<open>\<^verbatim>\<open>os.path.join(a, b)\<close> with the POSIX separator.\<close>

definition os_path_join :: "string \<Rightarrow> string \<Rightarrow> string" where
  "os_path_join a b =
     (if b \<noteq> [] \<and> hd b = CHR ''/'' then b
      else if a = [] \<or> last a = CHR ''/'' then a @ b
      else a @ ''/'' @ b)"

text \<open>\<^verbatim>\<open>p.rfind(c)\<close>: the index of the last occurrence, or \<open>-1\<close>.\<close>

definition rfind :: "string \<Rightarrow> char \<Rightarrow> int" where
  "rfind p c =
     (if c \<in> set p
      then int (length p) - 1 - int (length (takeWhile (\<lambda>x. x \<noteq> c) (rev p)))
      else - 1)"

text \<open>
  \<^verbatim>\<open>os.path.splitext(p)\<close> (POSIX): the extension starts at the last dot, when that dot comes
  after the last \<^verbatim>\<open>/\<close> and some character between the two is not a dot (leading dots of
  the base name do not start an extension); otherwise the extension is empty.
\<close>

definition splitext :: "string \<Rightarrow> string \<times> string" where
  "splitext p =
     (let sepIndex = rfind p CHR ''/'';
          dotIndex = rfind p CHR ''.''
      in if dotIndex > sepIndex \<and>
            list_ex (\<lambda>c. c \<noteq> CHR ''.'')
              (take (nat (dotIndex - (sepIndex + 1))) (drop (nat (sepIndex + 1)) p))
         then (take (nat dotIndex) p, drop (nat dotIndex) p)
         else (p, []))"

subsection \<open>The model, the request and the world\<close>

text \<open>
  One element of \<^verbatim>\<open>results[0].boxes\<close>: the values \<^verbatim>\<open>box.conf[0]\<close>, \<^verbatim>\<open>box.cls[0]\<close> (a float that
  holds a class index) and \<^verbatim>\<open>box.xyxy[0]\<close>.
\<close>

record box =
  conf :: real
  cls :: real
  xyxy :: "real list"

text \<open>\<^verbatim>\<open>results[0]\<close>: the image \<^verbatim>\<open>plot()\<close> renders and \<^verbatim>\<open>boxes\<close>, which may be \<^verbatim>\<open>None\<close>.\<close>

record results0 =
  plot :: string
  boxes :: "box list option"

text \<open>
  The call \<^verbatim>\<open>model(filepath, conf=..., iou=..., save=False)\<close> followed by
  \<^verbatim>\<open>results[0].plot()\<close>: \<open>Inl msg\<close> when an exception with text \<open>msg\<close> is raised, else
  \<open>Inr\<close> of \<^verbatim>\<open>results[0]\<close>.
\<close>

type_synonym yolo = "string \<Rightarrow> real \<Rightarrow> real \<Rightarrow> string + results0"

text \<open>
  The globals \<^verbatim>\<open>model\<close> and \<^verbatim>\<open>MODEL_LOADED\<close>, set once when the module is loaded:
  \<^verbatim>\<open>
  model = None
  MODEL_LOADED = False
  try:
      model = YOLO(MODEL_PATH)
      MODEL_LOADED = True
  except Exception as e:
      MODEL_LOADED = False
  \<close>
  The argument of \<open>startup\<close> is the outcome of \<^verbatim>\<open>YOLO(MODEL_PATH)\<close>.
\<close>

record app =
  model :: "yolo option"
  MODEL_LOADED :: bool

definition startup :: "string + yolo \<Rightarrow> app" where
  "startup loaded =
     (case loaded of
        Inr m \<Rightarrow> \<lparr>model = Some m, MODEL_LOADED = True\<rparr>
      | Inl e \<Rightarrow> \<lparr>model = None, MODEL_LOADED = False\<rparr>)"

text \<open>A part of \<^verbatim>\<open>request.files\<close>: its filename and its bytes.\<close>

record file_storage =
  filename :: string
  stream :: string

record request =
  files :: "string \<rightharpoonup> file_storage"

text \<open>
  The world a request acts on: the files on disk by path, and the log of the writes and
  model invocations made so far.
\<close>

datatype event = FileSaved string | ModelCalled string | ResultWritten string

record world =
  fs :: "string \<rightharpoonup> string"
  trace :: "event list"

text \<open>\<^verbatim>\<open>cv2.imwrite\<close> raises, returns \<^verbatim>\<open>False\<close> and writes nothing, or writes the encoded image.\<close>

datatype imwrite_outcome = ImwriteRaises string | ImwriteFalse | ImwriteWrote string

text \<open>What the libraries do during one request.\<close>

record env =
  now :: datetime
  secure_filename :: "string \<Rightarrow> string"
  save_raises :: "string \<Rightarrow> string option"
  imwrite :: "string \<Rightarrow> string \<Rightarrow> imwrite_outcome"
  b64encode :: "string \<Rightarrow> string"

subsection \<open>Responses\<close>

datatype json =
    JBool bool
  | JInt int
  | JFloat real
  | JStr string
  | JList "json list"
  | JObj "(string \<times> json) list"

text \<open>A view's return value: the \<^verbatim>\<open>jsonify\<close> body and the HTTP status.\<close>

type_synonym response = "json \<times> nat"

text \<open>\<^verbatim>\<open>jsonify({'success': False, 'error': msg}), status\<close>\<close>

definition error_response :: "string \<Rightarrow> nat \<Rightarrow> response" where
  "error_response msg status = (JObj [(''success'', JBool False), (''error'', JStr msg)], status)"

text \<open>The dictionary \<^verbatim>\<open>detection\<close> built for each box.\<close>

record detection =
  confidence :: real
  class_id :: int
  bbox :: "real list"

text \<open>Python's \<^verbatim>\<open>int(x)\<close> on a float: truncation towards zero.\<close>

definition py_int :: "real \<Rightarrow> int" where
  "py_int x = (if 0 \<le> x then \<lfloor>x\<rfloor> else \<lceil>x\<rceil>)"

text \<open>
  \<^verbatim>\<open>
  detection = {'confidence': float(box.conf[0]), 'class_id': int(box.cls[0]),
               'bbox': box.xyxy[0].tolist()}
  \<close>
\<close>

definition box_detection :: "box \<Rightarrow> detection" where
  "box_detection b = \<lparr>confidence = conf b, class_id = py_int (cls b), bbox = xyxy b\<rparr>"

definition detection_json :: "detection \<Rightarrow> json" where
  "detection_json d =
     JObj [(''confidence'', JFloat (confidence d)), (''class_id'', JInt (class_id d)),
           (''bbox'', JList (map JFloat (bbox d)))]"

subsection \<open>\<^verbatim>\<open>encode_image_to_base64\<close> and \<^verbatim>\<open>upload_file\<close>\<close>

text \<open>Reads the file and encodes it; \<^verbatim>\<open>None\<close> when the file cannot be opened.\<close>

definition encode_image_to_base64 :: "env \<Rightarrow> world \<Rightarrow> string \<Rightarrow> string option" where
  "encode_image_to_base64 e w image_path =
     (case fs w image_path of
        Some bytes \<Rightarrow> Some (b64encode e bytes)
      | None \<Rightarrow> None)"

text \<open>
  The handler of the \<^verbatim>\<open>except Exception as e\<close> clause that guards the detection block.
\<close>

definition detection_failed :: "string \<Rightarrow> response" where
  "detection_failed msg =
     error_response (''Detection process failed: '' @ msg @ ''. Please try another image.'') 500"

text \<open>
  The second \<^verbatim>\<open>try\<close> block of \<^verbatim>\<open>upload_file\<close>, entered after the upload was saved at
  \<open>filepath\<close>. Calling \<^verbatim>\<open>model\<close> while it is \<^verbatim>\<open>None\<close> raises a \<^verbatim>\<open>TypeError\<close>, which the
  clause catches like any other exception.
\<close>

definition detect :: "app \<Rightarrow> env \<Rightarrow> string \<Rightarrow> string \<Rightarrow> world \<Rightarrow> response \<times> world" where
  "detect a e filepath filename_with_timestamp w =
     (case model a of
        None \<Rightarrow>
          (detection_failed ([CHR 0x27] @ ''NoneType'' @ [CHR 0x27] @ '' object is not callable''), w)
      | Some m \<Rightarrow>
          (let w1 = w\<lparr>trace := trace w @ [ModelCalled filepath]\<rparr> in
           case m filepath (25 / 100) (7 / 10) of
             Inl msg \<Rightarrow> (detection_failed msg, w1)
           | Inr results \<Rightarrow>
               (let result_img_np = plot results;
                    (name, ext) = splitext filename_with_timestamp;
                    result_filename = ''detected_'' @ name @ ''.jpg'';
                    result_path = os_path_join RESULTS_FOLDER result_filename
                in case imwrite e result_path result_img_np of
                     ImwriteRaises msg \<Rightarrow> (detection_failed msg, w1)
                   | outcome \<Rightarrow>
                       (let w2 = (case outcome of
                                    ImwriteWrote bytes \<Rightarrow>
                                      w1\<lparr>fs := (fs w1)(result_path \<mapsto> bytes),
                                         trace := trace w1 @ [ResultWritten result_path]\<rparr>
                                  | _ \<Rightarrow> w1);
                            detections = (case boxes results of
                                            None \<Rightarrow> []
                                          | Some bs \<Rightarrow> map box_detection bs);
                            original_b64 = encode_image_to_base64 e w2 filepath;
                            result_b64 = encode_image_to_base64 e w2 result_path
                        in case (original_b64, result_b64) of
                             (Some ob, Some rb) \<Rightarrow>
                               ((JObj [(''success'', JBool True),
                                       (''original_image'', JStr ob),
                                       (''result_image'', JStr rb),
                                       (''detections'', JList (map detection_json detections)),
                                       (''detection_count'', JInt (int (length detections))),
                                       (''filename'', JStr filename_with_timestamp)], 200), w2)
                           | _ \<Rightarrow>
                               (error_response ''Failed to encode images to base64.'' 500, w2)))))"

text \<open>
  \<^verbatim>\<open>@app.route('/upload', methods=['POST']) def upload_file()\<close>. A \<^verbatim>\<open>FileStorage\<close> is true
  when its filename is not empty.
\<close>

definition upload_file :: "app \<Rightarrow> env \<Rightarrow> request \<Rightarrow> world \<Rightarrow> response \<times> world" where
  "upload_file a e req w =
     (if \<not> MODEL_LOADED a
      then (error_response ''AI model not loaded. System is offline.'' 500, w)
      else case files req ''file'' of
        None \<Rightarrow>
          (error_response ''No file part in the request. Please select an image.'' 400, w)
      | Some file \<Rightarrow>
          if filename file = []
          then (error_response ''No selected file. Please choose an image to upload.'' 400, w)
          else if filename file \<noteq> [] \<and> allowed_file (filename file)
          then
            (let fname = secure_filename e (filename file);
                 timestamp = strftime (now e);
                 filename_with_timestamp = timestamp @ ''_'' @ fname;
                 filepath = os_path_join UPLOAD_FOLDER filename_with_timestamp
             in case save_raises e filepath of
                  Some msg \<Rightarrow>
                    (error_response (''Failed to save uploaded file: '' @ msg) 500, w)
                | None \<Rightarrow>
                    detect a e filepath filename_with_timestamp
                      (w\<lparr>fs := (fs w)(filepath \<mapsto> stream file),
                         trace := trace w @ [FileSaved filepath]\<rparr>))
          else
            (error_response
               ''Invalid file type. Please upload a supported image format.'' 400, w))"

subsection \<open>Auxiliary notions for the statements\<close>

text \<open>The \<open>w\<close> lowest decimal digits of a number: what a zero-padded field of width \<open>w\<close> shows.\<close>

fun digits :: "nat \<Rightarrow> nat \<Rightarrow> string" where
  "digits 0 n = []"
| "digits (Suc w) n = digits w (n div 10) @ [digit_char (n mod 10)]"

text \<open>Member access on a JSON object, as in the page script's \<^verbatim>\<open>data.detection_count\<close>.\<close>

fun jfield :: "json \<Rightarrow> string \<Rightarrow> json option" where
  "jfield (JObj members) key = map_of members key"
| "jfield _ key = None"

text \<open>The keys of a JSON object, in order.\<close>

fun jkeys :: "json \<Rightarrow> string list" where
  "jkeys (JObj members) = map fst members"
| "jkeys _ = []"

text \<open>
  The local variables \<^verbatim>\<open>filename_with_timestamp\<close>, \<^verbatim>\<open>filepath\<close> and \<^verbatim>\<open>result_path\<close> of
  \<^verbatim>\<open>upload_file\<close>, and the body of its success response, written out.
\<close>

abbreviation stored_name :: "env \<Rightarrow> file_storage \<Rightarrow> string" where
  "stored_name e file \<equiv> strftime (now e) @ ''_'' @ secure_filename e (filename file)"

abbreviation upload_path :: "env \<Rightarrow> file_storage \<Rightarrow> string" where
  "upload_path e file \<equiv> ''uploads/'' @ stored_name e file"

abbreviation result_path :: "env \<Rightarrow> file_storage \<Rightarrow> string" where
  "result_path e file \<equiv> ''results/detected_'' @ fst (splitext (stored_name e file)) @ ''.jpg''"

abbreviation success_body :: "env \<Rightarrow> string \<Rightarrow> string \<Rightarrow> results0 \<Rightarrow> string \<Rightarrow> json" where
  "success_body e ob rb results fn \<equiv>
     JObj [(''success'', JBool True),
           (''original_image'', JStr (b64encode e ob)),
           (''result_image'', JStr (b64encode e rb)),
           (''detections'', JList (map detection_json
              (case boxes results of None \<Rightarrow> [] | Some bs \<Rightarrow> map box_detection bs))),
           (''detection_count'', JInt (int (length
              (case boxes results of None \<Rightarrow> [] | Some bs \<Rightarrow> map box_detection bs)))),
           (''filename'', JStr fn)]"

subsection \<open>Sample inputs\<close>

text \<open>Concrete requests, environments and models at which the theorems are instantiated.\<close>

definition sample_now :: datetime where
  "sample_now = \<lparr>year = 2025, month = 1, day = 2, hour = 3, minute = 4, second = 5,
     microsecond = 678\<rparr>"

definition sample_env :: env where
  "sample_env = \<lparr>now = sample_now, secure_filename = id, save_raises = (\<lambda>path. None),
     imwrite = (\<lambda>path img. ImwriteWrote img), b64encode = id\<rparr>"

definition sample_results :: results0 where
  "sample_results = \<lparr>plot = ''annotated'',
     boxes = Some [\<lparr>conf = 0.9, cls = 0, xyxy = [1, 2, 3, 4]\<rparr>,
                   \<lparr>conf = 0.5, cls = 0, xyxy = [5, 6, 7, 8]\<rparr>]\<rparr>"

definition working_model :: yolo where
  "working_model = (\<lambda>path conf iou. Inr sample_results)"

definition failing_model :: yolo where
  "failing_model = (\<lambda>path conf iou. Inl ''cannot identify image file'')"

definition working_app :: app where
  "working_app = startup (Inr working_model)"

definition failing_app :: app where
  "failing_app = startup (Inr failing_model)"

definition offline_app :: app where
  "offline_app = startup (Inl ''weights not found'')"

definition sample_file :: file_storage where
  "sample_file = \<lparr>filename = ''x.png'', stream = ''first''\<rparr>"

definition sample_request :: request where
  "sample_request = \<lparr>files = [''file'' \<mapsto> sample_file]\<rparr>"

definition empty_request :: request where
  "empty_request = \<lparr>files = Map.empty\<rparr>"

definition empty_world :: world where
  "empty_world = \<lparr>fs = Map.empty, trace = []\<rparr>"

definition second_file :: file_storage where
  "second_file = \<lparr>filename = ''x.png'', stream = ''second''\<rparr>"

definition second_request :: request where
  "second_request = \<lparr>files = [''file'' \<mapsto> second_file]\<rparr>"

definition unnamed_request :: request where
  "unnamed_request = \<lparr>files = [''file'' \<mapsto> \<lparr>filename = [], stream = ''raw''\<rparr>]\<rparr>"

definition gif_request :: request where
  "gif_request = \<lparr>files = [''file'' \<mapsto> \<lparr>filename = ''x.gif'', stream = ''raw''\<rparr>]\<rparr>"

section \<open>Properties\<close>

subsection \<open>Upload validator\<close>

lemma rsplit1_length: "sep \<in> set s \<Longrightarrow> length (rsplit1 sep s) = 2"
  by (simp add: rsplit1_def)

lemma rsplit1_split:
  assumes "sep \<notin> set suf"
  shows "rsplit1 sep (pre @ sep # suf) = [pre, suf]"
proof -
  have a: "takeWhile (\<lambda>c. c \<noteq> sep) (rev suf @ sep # rev pre) = rev suf"
    using assms by (subst takeWhile_append2) auto
  have b: "dropWhile (\<lambda>c. c \<noteq> sep) (rev suf @ sep # rev pre) = sep # rev pre"
    using assms by (subst dropWhile_append2) auto
  show ?thesis
    using a b by (simp add: rsplit1_def)
qed

lemma last_occurrence:
  assumes "sep \<in> set s"
  shows "\<exists>pre suf. s = pre @ sep # suf \<and> sep \<notin> set suf"
proof -
  from assms obtain ys zs where "s = ys @ sep # zs" "sep \<notin> set zs"
    by (meson split_list_last)
  then show ?thesis by blast
qed

text \<open>
  C2. A filename is accepted exactly when it contains a dot and the lowercased text after
  its last dot is one of png, jpg, jpeg, bmp, tiff, tif: that is, when it is some stem, a
  dot, and a dot-free extension whose lowercase form is allowed. So \<open>x.PNG\<close> is accepted,
  \<open>x\<close> and \<open>x.gif\<close> are not.
\<close>

theorem allowed_file_iff_extension:
  "(allowed_file fname \<longleftrightarrow>
      (\<exists>stem ext. fname = stem @ ''.'' @ ext \<and> CHR ''.'' \<notin> set ext \<and>
         lower ext \<in> {''png'', ''jpg'', ''jpeg'', ''bmp'', ''tiff'', ''tif''})) \<and>
   allowed_file ''x.PNG'' \<and> \<not> allowed_file ''x'' \<and> \<not> allowed_file ''x.gif''"
proof -
  have "allowed_file fname \<longleftrightarrow>
      (\<exists>stem ext. fname = stem @ ''.'' @ ext \<and> CHR ''.'' \<notin> set ext \<and>
         lower ext \<in> ALLOWED_EXTENSIONS)"
  proof
    assume "allowed_file fname"
    then have d: "CHR ''.'' \<in> set fname"
      and m: "lower (rsplit1 CHR ''.'' fname ! 1) \<in> ALLOWED_EXTENSIONS"
      by (simp_all add: allowed_file_def)
    from last_occurrence [OF d] obtain pre suf
      where s: "fname = pre @ CHR ''.'' # suf" "CHR ''.'' \<notin> set suf" by blast
    then have "rsplit1 CHR ''.'' fname = [pre, suf]"
      by (simp add: rsplit1_split)
    with m have "lower suf \<in> ALLOWED_EXTENSIONS" by simp
    with s show "\<exists>stem ext. fname = stem @ ''.'' @ ext \<and> CHR ''.'' \<notin> set ext \<and>
          lower ext \<in> ALLOWED_EXTENSIONS" by auto
  next
    assume "\<exists>stem ext. fname = stem @ ''.'' @ ext \<and> CHR ''.'' \<notin> set ext \<and>
          lower ext \<in> ALLOWED_EXTENSIONS"
    then obtain stem ext where s: "fname = stem @ CHR ''.'' # ext" "CHR ''.'' \<notin> set ext"
      "lower ext \<in> ALLOWED_EXTENSIONS" by auto
    then have "rsplit1 CHR ''.'' fname = [stem, ext]"
      by (simp add: rsplit1_split)
    with s show "allowed_file fname"
      by (simp add: allowed_file_def)
  qed
  moreover have "allowed_file ''x.PNG''"
    by (simp add: allowed_file_def rsplit1_def lower_def lower_char_def
        ALLOWED_EXTENSIONS_def char_of_eq_iff)
  moreover have "\<not> allowed_file ''x''"
    by (simp add: allowed_file_def)
  moreover have "\<not> allowed_file ''x.gif''"
    by (simp add: allowed_file_def rsplit1_def lower_def lower_char_def
        ALLOWED_EXTENSIONS_def char_of_eq_iff)
  ultimately show ?thesis
    by (simp add: ALLOWED_EXTENSIONS_def)
qed

subsection \<open>Threat level\<close>

text \<open>
  C1. The threat level is a three-tier step function of the detection count: for every
  non-negative integer \<open>n\<close>, \<open>n \<ge> 5\<close> gives HIGH, \<open>2 \<le> n < 5\<close> gives MEDIUM and \<open>n < 2\<close>
  gives LOW; at the boundaries, 1 is LOW, 2 and 4 are MEDIUM and 5 is HIGH.
\<close>

theorem threat_level_tiers:
  assumes "0 \<le> n"
  shows "(n \<ge> 5 \<longrightarrow> threat_level n = HIGH) \<and>
         (2 \<le> n \<and> n < 5 \<longrightarrow> threat_level n = MEDIUM) \<and>
         (n < 2 \<longrightarrow> threat_level n = LOW) \<and>
         threat_level 1 = LOW \<and> threat_level 2 = MEDIUM \<and>
         threat_level 4 = MEDIUM \<and> threat_level 5 = HIGH"
  by (simp add: threat_level_def)

theorem threat_level_tiers_witness:
  "(0::int) \<le> 3 \<and> threat_level 3 = MEDIUM \<and> threat_level 7 = HIGH \<and> threat_level 0 = LOW"
  using threat_level_tiers [of 3] threat_level_tiers [of 7] threat_level_tiers [of 0]
  by simp

subsection \<open>Timestamps and paths\<close>

lemma digit_char_inj: "a < 10 \<Longrightarrow> b < 10 \<Longrightarrow> digit_char a = digit_char b \<Longrightarrow> a = b"
  by (simp add: digit_char_def)

lemma digit_char_0: "digit_char 0 = CHR ''0''"
  by (simp add: digit_char_def char_of_eq_iff)

lemma digit_char_not_slash: "d < 10 \<Longrightarrow> digit_char d \<noteq> CHR ''/''"
  by (simp add: digit_char_def char_of_eq_iff take_bit_eq_mod)

lemma length_digits: "length (digits w n) = w"
  by (induction w arbitrary: n) simp_all

lemma digits_0: "digits w 0 = replicate w CHR ''0''"
  by (induction w) (simp_all add: digit_char_0 replicate_append_same)

lemma digits_inj: "n < 10 ^ w \<Longrightarrow> m < 10 ^ w \<Longrightarrow> digits w n = digits w m \<Longrightarrow> n = m"
proof (induction w arbitrary: n m)
  case 0
  then show ?case by simp
next
  case (Suc w)
  from Suc.prems(3) have a: "digits w (n div 10) = digits w (m div 10)"
    and b: "digit_char (n mod 10) = digit_char (m mod 10)"
    by (simp_all add: length_digits)
  from b have "n mod 10 = m mod 10"
    by (intro digit_char_inj) simp_all
  moreover have "n div 10 = m div 10"
    using Suc.prems(1,2) by (intro Suc.IH [OF _ _ a]) (simp_all add: less_mult_imp_div_less mult.commute)
  ultimately show ?case
    by (metis div_mult_mod_eq)
qed

lemma zfill_snoc: "zfill (Suc w) (xs @ [d]) = zfill w xs @ [d]"
  by (simp add: zfill_def)

lemma zfill_dec: "n < 10 ^ Suc w \<Longrightarrow> zfill (Suc w) (dec n) = digits (Suc w) n"
proof (induction w arbitrary: n)
  case 0
  then show ?case by (simp add: dec.simps [of n] zfill_def)
next
  case (Suc w)
  show ?case
  proof (cases "n < 10")
    case True
    then show ?thesis
      by (simp add: dec.simps [of n] zfill_def digits_0 digit_char_0 replicate_append_same)
  next
    case False
    from Suc.prems have "n div 10 < 10 ^ Suc w"
      by (simp add: less_mult_imp_div_less mult.commute)
    then have "zfill (Suc w) (dec (n div 10)) = digits (Suc w) (n div 10)"
      by (rule Suc.IH)
    with False show ?thesis
      by (simp add: dec.simps [of n] zfill_snoc)
  qed
qed

lemma zfill_dec_width:
  assumes "0 < w" "n < 10 ^ w"
  shows "zfill w (dec n) = digits w n"
proof -
  from assms(1) obtain v where "w = Suc v"
    by (cases w) simp_all
  with assms(2) show ?thesis
    using zfill_dec [of n v] by simp
qed

lemma strftime_digits:
  assumes "valid_datetime t"
  shows "strftime t =
     digits 4 (year t) @ digits 2 (month t) @ digits 2 (day t) @ ''_'' @
     digits 2 (hour t) @ digits 2 (minute t) @ digits 2 (second t) @ ''_'' @
     digits 6 (microsecond t)"
proof -
  have y: "zfill 4 (dec (year t)) = digits 4 (year t)"
    using assms by (intro zfill_dec_width) (simp_all add: valid_datetime_def)
  have mo: "zfill 2 (dec (month t)) = digits 2 (month t)"
    using assms by (intro zfill_dec_width) (simp_all add: valid_datetime_def)
  have d: "zfill 2 (dec (day t)) = digits 2 (day t)"
    using assms by (intro zfill_dec_width) (simp_all add: valid_datetime_def)
  have h: "zfill 2 (dec (hour t)) = digits 2 (hour t)"
    using assms by (intro zfill_dec_width) (simp_all add: valid_datetime_def)
  have mi: "zfill 2 (dec (minute t)) = digits 2 (minute t)"
    using assms by (intro zfill_dec_width) (simp_all add: valid_datetime_def)
  have s: "zfill 2 (dec (second t)) = digits 2 (second t)"
    using assms by (intro zfill_dec_width) (simp_all add: valid_datetime_def)
  have u: "zfill 6 (dec (microsecond t)) = digits 6 (microsecond t)"
    using assms by (intro zfill_dec_width) (simp_all add: valid_datetime_def)
  show ?thesis
    unfolding strftime_def y mo d h mi s u ..
qed

lemma strftime_inj:
  assumes "valid_datetime s" "valid_datetime t" "strftime s = strftime t"
  shows "s = t"
proof -
  from assms have e: "digits 4 (year s) @ digits 2 (month s) @ digits 2 (day s) @ ''_'' @
     digits 2 (hour s) @ digits 2 (minute s) @ digits 2 (second s) @ ''_'' @
     digits 6 (microsecond s) = digits 4 (year t) @ digits 2 (month t) @ digits 2 (day t) @ ''_'' @
     digits 2 (hour t) @ digits 2 (minute t) @ digits 2 (second t) @ ''_'' @
     digits 6 (microsecond t)"
    by (simp add: strftime_digits)
  then have parts: "digits 4 (year s) = digits 4 (year t)" "digits 2 (month s) = digits 2 (month t)"
    "digits 2 (day s) = digits 2 (day t)" "digits 2 (hour s) = digits 2 (hour t)"
    "digits 2 (minute s) = digits 2 (minute t)" "digits 2 (second s) = digits 2 (second t)"
    "digits 6 (microsecond s) = digits 6 (microsecond t)"
    by (simp_all add: append_eq_append_conv length_digits del: digits.simps)
  have "year s = year t"
    using assms(1,2) by (intro digits_inj [OF _ _ parts(1)]) (simp_all add: valid_datetime_def)
  moreover have "month s = month t"
    using assms(1,2) by (intro digits_inj [OF _ _ parts(2)]) (simp_all add: valid_datetime_def)
  moreover have "day s = day t"
    using assms(1,2) by (intro digits_inj [OF _ _ parts(3)]) (simp_all add: valid_datetime_def)
  moreover have "hour s = hour t"
    using assms(1,2) by (intro digits_inj [OF _ _ parts(4)]) (simp_all add: valid_datetime_def)
  moreover have "minute s = minute t"
    using assms(1,2) by (intro digits_inj [OF _ _ parts(5)]) (simp_all add: valid_datetime_def)
  moreover have "second s = second t"
    using assms(1,2) by (intro digits_inj [OF _ _ parts(6)]) (simp_all add: valid_datetime_def)
  moreover have "microsecond s = microsecond t"
    using assms(1,2) by (intro digits_inj [OF _ _ parts(7)]) (simp_all add: valid_datetime_def)
  ultimately show ?thesis
    by simp
qed

lemma length_strftime: "valid_datetime t \<Longrightarrow> length (strftime t) = 22"
  by (simp add: strftime_digits length_digits del: digits.simps)

lemma dec_digits: "set (dec n) \<subseteq> digit_char ` {..<10}"
proof (induction n rule: dec.induct)
  case (1 n)
  show ?case
  proof (cases "n < 10")
    case True
    then show ?thesis by (simp add: dec.simps [of n])
  next
    case False
    with 1 show ?thesis by (simp add: dec.simps [of n])
  qed
qed

lemma dec_nonempty: "dec n \<noteq> []"
  by (simp add: dec.simps [of n])

lemma strftime_hd: "strftime t \<noteq> [] \<and> hd (strftime t) \<noteq> CHR ''/''"
proof -
  have "CHR ''/'' \<notin> set (dec (year t))"
    using dec_digits [of "year t"] digit_char_not_slash by fastforce
  then have "CHR ''/'' \<notin> set (zfill 4 (dec (year t)))"
    by (auto simp: zfill_def)
  moreover have "zfill 4 (dec (year t)) \<noteq> []"
    by (simp add: zfill_def dec_nonempty)
  ultimately have "hd (zfill 4 (dec (year t))) \<noteq> CHR ''/''"
    by (metis hd_in_set)
  then show ?thesis
    using \<open>zfill 4 (dec (year t)) \<noteq> []\<close> by (simp add: strftime_def)
qed

lemma upload_join: "os_path_join UPLOAD_FOLDER (strftime t @ rest) = ''uploads/'' @ strftime t @ rest"
  using strftime_hd [of t] by (simp add: os_path_join_def UPLOAD_FOLDER_def)

lemma splitext_parts: "fst (splitext p) @ snd (splitext p) = p"
  by (simp add: splitext_def Let_def)

lemma upload_file_offline:
  "\<not> MODEL_LOADED a \<Longrightarrow>
   upload_file a e req w = (error_response ''AI model not loaded. System is offline.'' 500, w)"
  by (simp add: upload_file_def)

lemma upload_file_accepted:
  assumes "MODEL_LOADED a" "files req ''file'' = Some file" "filename file \<noteq> []"
    "allowed_file (filename file)"
  shows "upload_file a e req w =
     (case save_raises e (upload_path e file) of
        Some msg \<Rightarrow> (error_response (''Failed to save uploaded file: '' @ msg) 500, w)
      | None \<Rightarrow> detect a e (upload_path e file) (stored_name e file)
          (w\<lparr>fs := (fs w)(upload_path e file \<mapsto> stream file),
             trace := trace w @ [FileSaved (upload_path e file)]\<rparr>))"
  using assms upload_join [of "now e" "''_'' @ secure_filename e (filename file)"]
  by (simp add: upload_file_def Let_def split: option.split)

lemma sample_strftime: "strftime sample_now = ''20250102_030405_000678''"
  by code_simp

lemma sample_splitext: "splitext ''20250102_030405_000678_x.png'' = (''20250102_030405_000678_x'', ''.png'')"
  by (simp add: splitext_def rfind_def Let_def)

lemma sample_allowed: "allowed_file ''x.png''"
  by (simp add: allowed_file_def rsplit1_def lower_def lower_char_def
        ALLOWED_EXTENSIONS_def char_of_eq_iff)

subsection \<open>The detection block\<close>

lemma results_join: "os_path_join RESULTS_FOLDER (CHR ''d'' # rest) = ''results/'' @ CHR ''d'' # rest"
  by (simp add: os_path_join_def RESULTS_FOLDER_def)

lemma detect_no_model:
  "model a = None \<Longrightarrow> detect a e fp fn w =
     (detection_failed ([CHR 0x27] @ ''NoneType'' @ [CHR 0x27] @ '' object is not callable''), w)"
  by (simp add: detect_def)

lemma detect_raises:
  "model a = Some m \<Longrightarrow> m fp (25 / 100) (7 / 10) = Inl msg \<Longrightarrow>
   detect a e fp fn w = (detection_failed msg, w\<lparr>trace := trace w @ [ModelCalled fp]\<rparr>)"
  by (simp add: detect_def)

lemma detect_imwrite_raises:
  "model a = Some m \<Longrightarrow> m fp (25 / 100) (7 / 10) = Inr results \<Longrightarrow>
   imwrite e (''results/detected_'' @ fst (splitext fn) @ ''.jpg'') (plot results) = ImwriteRaises msg \<Longrightarrow>
   detect a e fp fn w = (detection_failed msg, w\<lparr>trace := trace w @ [ModelCalled fp]\<rparr>)"
  by (simp add: detect_def Let_def results_join case_prod_beta)

lemma detect_imwrite_false:
  "model a = Some m \<Longrightarrow> m fp (25 / 100) (7 / 10) = Inr results \<Longrightarrow>
   imwrite e (''results/detected_'' @ fst (splitext fn) @ ''.jpg'') (plot results) = ImwriteFalse \<Longrightarrow>
   detect a e fp fn w =
     (case (fs w fp, fs w (''results/detected_'' @ fst (splitext fn) @ ''.jpg'')) of
        (Some ob, Some rb) \<Rightarrow>
          (JObj [(''success'', JBool True),
                 (''original_image'', JStr (b64encode e ob)),
                 (''result_image'', JStr (b64encode e rb)),
                 (''detections'', JList (map detection_json
                    (case boxes results of None \<Rightarrow> [] | Some bs \<Rightarrow> map box_detection bs))),
                 (''detection_count'', JInt (int (length
                    (case boxes results of None \<Rightarrow> [] | Some bs \<Rightarrow> map box_detection bs)))),
                 (''filename'', JStr fn)], 200)
      | _ \<Rightarrow> error_response ''Failed to encode images to base64.'' 500,
      w\<lparr>trace := trace w @ [ModelCalled fp]\<rparr>)"
  by (simp add: detect_def Let_def results_join case_prod_beta encode_image_to_base64_def
      split: option.split)

lemma detect_imwrite_wrote:
  "model a = Some m \<Longrightarrow> m fp (25 / 100) (7 / 10) = Inr results \<Longrightarrow>
   imwrite e (''results/detected_'' @ fst (splitext fn) @ ''.jpg'') (plot results) = ImwriteWrote bytes \<Longrightarrow>
   fp \<noteq> ''results/detected_'' @ fst (splitext fn) @ ''.jpg'' \<Longrightarrow>
   detect a e fp fn w =
     (case fs w fp of
        Some ob \<Rightarrow>
          (JObj [(''success'', JBool True),
                 (''original_image'', JStr (b64encode e ob)),
                 (''result_image'', JStr (b64encode e bytes)),
                 (''detections'', JList (map detection_json
                    (case boxes results of None \<Rightarrow> [] | Some bs \<Rightarrow> map box_detection bs))),
                 (''detection_count'', JInt (int (length
                    (case boxes results of None \<Rightarrow> [] | Some bs \<Rightarrow> map box_detection bs)))),
                 (''filename'', JStr fn)], 200)
      | None \<Rightarrow> error_response ''Failed to encode images to base64.'' 500,
      w\<lparr>fs := (fs w)(''results/detected_'' @ fst (splitext fn) @ ''.jpg'' \<mapsto> bytes),
        trace := trace w @ [ModelCalled fp,
          ResultWritten (''results/detected_'' @ fst (splitext fn) @ ''.jpg'')]\<rparr>)"
  by (simp add: detect_def Let_def results_join case_prod_beta encode_image_to_base64_def
      split: option.split)

lemma failure_not_success:
  "error_response msg st = (body, status) \<Longrightarrow> jfield body ''success'' = Some (JBool True) \<Longrightarrow> False"
  "detection_failed msg = (body, status) \<Longrightarrow> jfield body ''success'' = Some (JBool True) \<Longrightarrow> False"
  "(body, status) = error_response msg st \<Longrightarrow> jfield body ''success'' = Some (JBool True) \<Longrightarrow> False"
  "(body, status) = detection_failed msg \<Longrightarrow> jfield body ''success'' = Some (JBool True) \<Longrightarrow> False"
  by (auto simp: error_response_def detection_failed_def)

lemma detect_trace:
  assumes "fp \<noteq> ''results/detected_'' @ fst (splitext fn) @ ''.jpg''"
  shows "trace (snd (detect a e fp fn w)) = trace w \<or>
         trace (snd (detect a e fp fn w)) = trace w @ [ModelCalled fp] \<or>
         trace (snd (detect a e fp fn w)) =
           trace w @ [ModelCalled fp, ResultWritten (''results/detected_'' @ fst (splitext fn) @ ''.jpg'')]"
proof (cases "model a")
  case None
  then show ?thesis by (simp add: detect_no_model)
next
  case (Some m)
  show ?thesis
  proof (cases "m fp (25 / 100) (7 / 10)")
    case (Inl msg)
    with Some show ?thesis by (simp add: detect_raises)
  next
    case (Inr results)
    show ?thesis
    proof (cases "imwrite e (''results/detected_'' @ fst (splitext fn) @ ''.jpg'') (plot results)")
      case (ImwriteRaises msg)
      with Some Inr show ?thesis by (simp add: detect_imwrite_raises)
    next
      case ImwriteFalse
      with Some Inr show ?thesis by (simp add: detect_imwrite_false)
    next
      case (ImwriteWrote bytes)
      with Some Inr assms show ?thesis by (simp add: detect_imwrite_wrote)
    qed
  qed
qed

lemma detect_frame:
  assumes "fp \<noteq> ''results/detected_'' @ fst (splitext fn) @ ''.jpg''"
    and "p \<noteq> ''results/detected_'' @ fst (splitext fn) @ ''.jpg''"
  shows "fs (snd (detect a e fp fn w)) p = fs w p"
proof (cases "model a")
  case None
  then show ?thesis by (simp add: detect_no_model)
next
  case (Some m)
  show ?thesis
  proof (cases "m fp (25 / 100) (7 / 10)")
    case (Inl msg)
    with Some show ?thesis by (simp add: detect_raises)
  next
    case (Inr results)
    show ?thesis
    proof (cases "imwrite e (''results/detected_'' @ fst (splitext fn) @ ''.jpg'') (plot results)")
      case (ImwriteRaises msg)
      with Some Inr show ?thesis by (simp add: detect_imwrite_raises)
    next
      case ImwriteFalse
      with Some Inr show ?thesis by (simp add: detect_imwrite_false)
    next
      case (ImwriteWrote bytes)
      with Some Inr assms show ?thesis by (simp add: detect_imwrite_wrote)
    qed
  qed
qed

lemma detect_success:
  assumes "fp \<noteq> ''results/detected_'' @ fst (splitext fn) @ ''.jpg''"
    and "detect a e fp fn w = ((body, status), w')"
    and "jfield body ''success'' = Some (JBool True)"
  shows "\<exists>m results ob rb. model a = Some m \<and> m fp (25 / 100) (7 / 10) = Inr results \<and>
           status = 200 \<and> body = success_body e ob rb results fn \<and>
           fs w' fp = Some ob \<and>
           fs w' (''results/detected_'' @ fst (splitext fn) @ ''.jpg'') = Some rb"
proof (cases "model a")
  case None
  with assms(2,3) show ?thesis
    by (auto simp add: detect_no_model dest: failure_not_success)
next
  case (Some m)
  show ?thesis
  proof (cases "m fp (25 / 100) (7 / 10)")
    case (Inl msg)
    with Some assms(2,3) show ?thesis
      by (auto simp add: detect_raises dest: failure_not_success)
  next
    case (Inr results)
    show ?thesis
    proof (cases "imwrite e (''results/detected_'' @ fst (splitext fn) @ ''.jpg'') (plot results)")
      case (ImwriteRaises msg)
      with Some Inr assms(2,3) show ?thesis
        by (auto simp add: detect_imwrite_raises dest: failure_not_success)
    next
      case ImwriteFalse
      from detect_imwrite_false [OF Some Inr ImwriteFalse, of w] assms(2)
      have r: "(case (fs w fp, fs w (''results/detected_'' @ fst (splitext fn) @ ''.jpg'')) of
          (Some ob, Some rb) \<Rightarrow> (success_body e ob rb results fn, 200)
        | _ \<Rightarrow> error_response ''Failed to encode images to base64.'' 500) = (body, status)"
        by simp
      from detect_imwrite_false [OF Some Inr ImwriteFalse, of w] assms(2)
      have u: "fs w' = fs w"
        by auto
      show ?thesis
      proof (cases "fs w fp")
        case None
        with r assms(3) show ?thesis
          by (auto dest: failure_not_success)
      next
        case ob: (Some ob)
        show ?thesis
        proof (cases "fs w (''results/detected_'' @ fst (splitext fn) @ ''.jpg'')")
          case None
          with ob r assms(3) show ?thesis
            by (auto dest: failure_not_success)
        next
          case (Some rb)
          with ob r have "body = success_body e ob rb results fn" "status = 200"
            by simp_all
          moreover from ob Some u have "fs w' fp = Some ob"
            "fs w' (''results/detected_'' @ fst (splitext fn) @ ''.jpg'') = Some rb"
            by simp_all
          ultimately show ?thesis
            using \<open>model a = Some m\<close> Inr by blast
        qed
      qed
    next
      case (ImwriteWrote bytes)
      from detect_imwrite_wrote [OF Some Inr ImwriteWrote assms(1), of w] assms(2)
      have r: "(case fs w fp of
          Some ob \<Rightarrow> (success_body e ob bytes results fn, 200)
        | None \<Rightarrow> error_response ''Failed to encode images to base64.'' 500) = (body, status)"
        by simp
      from detect_imwrite_wrote [OF Some Inr ImwriteWrote assms(1), of w] assms(2)
      have u: "fs w' = (fs w)(''results/detected_'' @ fst (splitext fn) @ ''.jpg'' \<mapsto> bytes)"
        by auto
      show ?thesis
      proof (cases "fs w fp")
        case None
        with r assms(3) show ?thesis
          by (auto dest: failure_not_success)
      next
        case (Some ob)
        with r have "body = success_body e ob bytes results fn" "status = 200"
          by simp_all
        moreover from Some u assms(1) have "fs w' fp = Some ob"
          "fs w' (''results/detected_'' @ fst (splitext fn) @ ''.jpg'') = Some bytes"
          by simp_all
        ultimately show ?thesis
          using \<open>model a = Some m\<close> Inr by blast
      qed
    qed
  qed
qed

lemma detect_written:
  assumes "fp \<noteq> ''results/detected_'' @ fst (splitext fn) @ ''.jpg''"
    and "trace (snd (detect a e fp fn w)) =
           trace w @ [ModelCalled fp, ResultWritten (''results/detected_'' @ fst (splitext fn) @ ''.jpg'')]"
  shows "fs (snd (detect a e fp fn w)) (''results/detected_'' @ fst (splitext fn) @ ''.jpg'') \<noteq> None"
proof (cases "model a")
  case None
  with assms(2) show ?thesis by (simp add: detect_no_model)
next
  case (Some m)
  show ?thesis
  proof (cases "m fp (25 / 100) (7 / 10)")
    case (Inl msg)
    with Some assms(2) show ?thesis by (simp add: detect_raises)
  next
    case (Inr results)
    show ?thesis
    proof (cases "imwrite e (''results/detected_'' @ fst (splitext fn) @ ''.jpg'') (plot results)")
      case (ImwriteRaises msg)
      with Some Inr assms(2) show ?thesis by (simp add: detect_imwrite_raises)
    next
      case ImwriteFalse
      with Some Inr assms(2) show ?thesis by (simp add: detect_imwrite_false)
    next
      case (ImwriteWrote bytes)
      with Some Inr assms(1) show ?thesis by (simp add: detect_imwrite_wrote)
    qed
  qed
qed

subsection \<open>The upload handler\<close>

lemma upload_result_distinct: "''uploads/'' @ x \<noteq> ''results/detected_'' @ y"
  by simp

lemma upload_file_no_part:
  "MODEL_LOADED a \<Longrightarrow> files req ''file'' = None \<Longrightarrow>
   upload_file a e req w =
     (error_response ''No file part in the request. Please select an image.'' 400, w)"
  by (simp add: upload_file_def)

lemma upload_file_unnamed:
  "MODEL_LOADED a \<Longrightarrow> files req ''file'' = Some file \<Longrightarrow> filename file = [] \<Longrightarrow>
   upload_file a e req w =
     (error_response ''No selected file. Please choose an image to upload.'' 400, w)"
  by (simp add: upload_file_def)

lemma upload_file_disallowed:
  "MODEL_LOADED a \<Longrightarrow> files req ''file'' = Some file \<Longrightarrow> filename file \<noteq> [] \<Longrightarrow>
   \<not> allowed_file (filename file) \<Longrightarrow>
   upload_file a e req w =
     (error_response ''Invalid file type. Please upload a supported image format.'' 400, w)"
  by (simp add: upload_file_def)

lemma upload_file_success:
  assumes "upload_file a e req w = ((body, status), w')"
    and "jfield body ''success'' = Some (JBool True)"
  shows "\<exists>file m results ob rb.
           MODEL_LOADED a \<and> files req ''file'' = Some file \<and> filename file \<noteq> [] \<and>
           allowed_file (filename file) \<and> save_raises e (upload_path e file) = None \<and>
           model a = Some m \<and> m (upload_path e file) (25 / 100) (7 / 10) = Inr results \<and>
           status = 200 \<and> body = success_body e ob rb results (stored_name e file) \<and>
           fs w' (upload_path e file) = Some ob \<and> fs w' (result_path e file) = Some rb"
proof -
  have loaded: "MODEL_LOADED a"
  proof (rule ccontr)
    assume "\<not> MODEL_LOADED a"
    with assms show False
      by (auto simp: upload_file_offline dest: failure_not_success)
  qed
  from loaded assms obtain f where part: "files req ''file'' = Some f"
    by (cases "files req ''file''") (auto simp: upload_file_no_part dest: failure_not_success)
  have named: "filename f \<noteq> []"
  proof
    assume "filename f = []"
    with loaded part assms show False
      by (auto simp: upload_file_unnamed dest: failure_not_success)
  qed
  have allowed: "allowed_file (filename f)"
  proof (rule ccontr)
    assume "\<not> allowed_file (filename f)"
    with loaded part named assms show False
      by (auto simp: upload_file_disallowed dest: failure_not_success)
  qed
  note acc = upload_file_accepted [OF loaded part named allowed, of e w]
  from acc assms have saved: "save_raises e (upload_path e f) = None"
    by (cases "save_raises e (upload_path e f)") (auto dest: failure_not_success)
  with acc assms(1) have "detect a e (upload_path e f) (stored_name e f)
          (w\<lparr>fs := (fs w)(upload_path e f \<mapsto> stream f),
             trace := trace w @ [FileSaved (upload_path e f)]\<rparr>) = ((body, status), w')"
    by simp
  from detect_success [OF upload_result_distinct this assms(2)]
  obtain m results ob rb where "model a = Some m"
    "m (upload_path e f) (25 / 100) (7 / 10) = Inr results" "status = 200"
    "body = success_body e ob rb results (stored_name e f)"
    "fs w' (upload_path e f) = Some ob" "fs w' (result_path e f) = Some rb"
    by blast
  with loaded part named allowed saved show ?thesis by blast
qed

lemma upload_file_trace:
  assumes "MODEL_LOADED a" "files req ''file'' = Some file" "filename file \<noteq> []"
    "allowed_file (filename file)"
  shows "trace (snd (upload_file a e req w)) = trace w \<or>
         trace (snd (upload_file a e req w)) = trace w @ [FileSaved (upload_path e file)] \<or>
         trace (snd (upload_file a e req w)) =
           trace w @ [FileSaved (upload_path e file), ModelCalled (upload_path e file)] \<or>
         trace (snd (upload_file a e req w)) =
           trace w @ [FileSaved (upload_path e file), ModelCalled (upload_path e file),
                      ResultWritten (result_path e file)]"
proof (cases "save_raises e (upload_path e file)")
  case (Some msg)
  then show ?thesis
    by (simp add: upload_file_accepted [OF assms])
next
  case None
  then show ?thesis
    using detect_trace [where a = a and e = e and fn = "stored_name e file" and
        w = "w\<lparr>fs := (fs w)(upload_path e file \<mapsto> stream file),
           trace := trace w @ [FileSaved (upload_path e file)]\<rparr>", OF upload_result_distinct]
    by (simp add: upload_file_accepted [OF assms])
qed

lemma upload_file_frame:
  assumes "MODEL_LOADED a" "files req ''file'' = Some file" "filename file \<noteq> []"
    "allowed_file (filename file)"
    and "p \<noteq> upload_path e file" "p \<noteq> result_path e file"
  shows "fs (snd (upload_file a e req w)) p = fs w p"
proof (cases "save_raises e (upload_path e file)")
  case (Some msg)
  then show ?thesis
    by (simp add: upload_file_accepted [OF assms(1-4)])
next
  case None
  then show ?thesis
    using assms(5) detect_frame [where a = a and e = e and fn = "stored_name e file" and
        w = "w\<lparr>fs := (fs w)(upload_path e file \<mapsto> stream file),
           trace := trace w @ [FileSaved (upload_path e file)]\<rparr>",
        OF upload_result_distinct assms(6)]
    by (simp add: upload_file_accepted [OF assms(1-4)])
qed

lemma upload_file_stored:
  assumes "MODEL_LOADED a" "files req ''file'' = Some file" "filename file \<noteq> []"
    "allowed_file (filename file)" "save_raises e (upload_path e file) = None"
  shows "fs (snd (upload_file a e req w)) (upload_path e file) = Some (stream file)"
  using assms(5) detect_frame [where a = a and e = e and fn = "stored_name e file" and
        p = "upload_path e file" and
        w = "w\<lparr>fs := (fs w)(upload_path e file \<mapsto> stream file),
           trace := trace w @ [FileSaved (upload_path e file)]\<rparr>",
        OF upload_result_distinct upload_result_distinct]
  by (simp add: upload_file_accepted [OF assms(1-4)])

lemma sample_stored:
  "stored_name sample_env sample_file = ''20250102_030405_000678_x.png''"
  "stored_name sample_env second_file = ''20250102_030405_000678_x.png''"
  by (simp_all add: sample_env_def sample_file_def second_file_def sample_strftime)

lemma sample_accepts:
  "MODEL_LOADED working_app" "MODEL_LOADED failing_app" "\<not> MODEL_LOADED offline_app"
  "files sample_request ''file'' = Some sample_file"
  "files second_request ''file'' = Some second_file"
  "filename sample_file \<noteq> []" "allowed_file (filename sample_file)"
  "filename second_file \<noteq> []" "allowed_file (filename second_file)"
  "save_raises sample_env p = None"
  by (simp_all add: working_app_def failing_app_def offline_app_def startup_def
      sample_request_def second_request_def sample_file_def second_file_def sample_allowed
      sample_env_def)

lemma failing_run:
  "upload_file failing_app sample_env sample_request empty_world =
     (detection_failed ''cannot identify image file'',
      \<lparr>fs = [''uploads/20250102_030405_000678_x.png'' \<mapsto> ''first''],
       trace = [FileSaved ''uploads/20250102_030405_000678_x.png'',
                ModelCalled ''uploads/20250102_030405_000678_x.png'']\<rparr>)"
proof -
  have m: "model failing_app = Some failing_model"
    by (simp add: failing_app_def startup_def)
  have r: "failing_model p c i = Inl ''cannot identify image file''" for p c i
    by (simp add: failing_model_def)
  show ?thesis
    unfolding upload_file_accepted [OF sample_accepts(2,4,6,7)] sample_accepts(10) sample_stored
    by (simp add: detect_raises [OF m r] empty_world_def sample_file_def)
qed

lemma working_run:
  "upload_file working_app sample_env sample_request w =
     ((success_body sample_env ''first'' ''annotated'' sample_results
         ''20250102_030405_000678_x.png'', 200),
      w\<lparr>fs := (fs w)(''uploads/20250102_030405_000678_x.png'' \<mapsto> ''first'',
                     ''results/detected_20250102_030405_000678_x.jpg'' \<mapsto> ''annotated''),
        trace := trace w @ [FileSaved ''uploads/20250102_030405_000678_x.png'',
                ModelCalled ''uploads/20250102_030405_000678_x.png'',
                ResultWritten ''results/detected_20250102_030405_000678_x.jpg'']\<rparr>)"
proof -
  have m: "model working_app = Some working_model"
    by (simp add: working_app_def startup_def)
  have r: "working_model p c j = Inr sample_results" for p c j
    by (simp add: working_model_def)
  have i: "imwrite sample_env (''results/detected_'' @ fst (splitext ''20250102_030405_000678_x.png'') @ ''.jpg'')
      (plot sample_results) = ImwriteWrote ''annotated''"
    by (simp add: sample_env_def sample_results_def)
  show ?thesis
    unfolding upload_file_accepted [OF sample_accepts(1,4,6,7)] sample_accepts(10) sample_stored
    by (simp add: detect_imwrite_wrote [OF m r i] sample_file_def sample_splitext)
qed

lemma second_run:
  "upload_file working_app sample_env second_request w =
     ((success_body sample_env ''second'' ''annotated'' sample_results
         ''20250102_030405_000678_x.png'', 200),
      w\<lparr>fs := (fs w)(''uploads/20250102_030405_000678_x.png'' \<mapsto> ''second'',
                     ''results/detected_20250102_030405_000678_x.jpg'' \<mapsto> ''annotated''),
        trace := trace w @ [FileSaved ''uploads/20250102_030405_000678_x.png'',
                ModelCalled ''uploads/20250102_030405_000678_x.png'',
                ResultWritten ''results/detected_20250102_030405_000678_x.jpg'']\<rparr>)"
proof -
  have m: "model working_app = Some working_model"
    by (simp add: working_app_def startup_def)
  have r: "working_model p c j = Inr sample_results" for p c j
    by (simp add: working_model_def)
  have i: "imwrite sample_env (''results/detected_'' @ fst (splitext ''20250102_030405_000678_x.png'') @ ''.jpg'')
      (plot sample_results) = ImwriteWrote ''annotated''"
    by (simp add: sample_env_def sample_results_def)
  show ?thesis
    unfolding upload_file_accepted [OF sample_accepts(1,5,8,9)] sample_accepts(10) sample_stored
    by (simp add: detect_imwrite_wrote [OF m r i] second_file_def sample_splitext)
qed

lemma upload_file_save_raises:
  assumes "MODEL_LOADED a" "files req ''file'' = Some file" "filename file \<noteq> []"
    "allowed_file (filename file)" "save_raises e (upload_path e file) = Some msg"
  shows "upload_file a e req w =
           (error_response (''Failed to save uploaded file: '' @ msg) 500, w)"
  using assms(5) by (simp add: upload_file_accepted [OF assms(1-4)])

lemma upload_file_trace_saved:
  assumes "MODEL_LOADED a" "files req ''file'' = Some file" "filename file \<noteq> []"
    "allowed_file (filename file)" "save_raises e (upload_path e file) = None"
  shows "trace (snd (upload_file a e req w)) = trace w @ [FileSaved (upload_path e file)] \<or>
         trace (snd (upload_file a e req w)) =
           trace w @ [FileSaved (upload_path e file), ModelCalled (upload_path e file)] \<or>
         trace (snd (upload_file a e req w)) =
           trace w @ [FileSaved (upload_path e file), ModelCalled (upload_path e file),
                      ResultWritten (result_path e file)]"
  using assms(5) detect_trace [where a = a and e = e and fn = "stored_name e file" and
        w = "w\<lparr>fs := (fs w)(upload_path e file \<mapsto> stream file),
           trace := trace w @ [FileSaved (upload_path e file)]\<rparr>", OF upload_result_distinct]
  by (simp add: upload_file_accepted [OF assms(1-4)])

lemma py_int_of_int: "x \<in> \<int> \<Longrightarrow> real_of_int (py_int x) = x"
  by (auto simp: py_int_def elim!: Ints_cases)

subsection \<open>Model unavailable\<close>

text \<open>
  C5. When the model failed to load at startup, so that the loaded flag is false, every
  request that carries a valid upload is answered with status 500 and the body
  \<open>{success: false, error: "AI model not loaded. System is offline."}\<close>; the world is
  unchanged: no file is written (neither under uploads nor under results) and the model is
  not invoked.
\<close>

theorem offline_rejects_valid_upload:
  assumes "\<not> MODEL_LOADED a" "files req ''file'' = Some file" "filename file \<noteq> []"
    "allowed_file (filename file)"
  shows "\<not> MODEL_LOADED (startup (Inl reason)) \<and>
         fst (upload_file a e req w) =
           (JObj [(''success'', JBool False),
                  (''error'', JStr ''AI model not loaded. System is offline.'')], 500) \<and>
         fs (snd (upload_file a e req w)) = fs w \<and>
         trace (snd (upload_file a e req w)) = trace w"
  using assms(1) by (simp add: upload_file_offline error_response_def startup_def)

theorem offline_rejects_valid_upload_witness:
  "\<not> MODEL_LOADED offline_app \<and> files sample_request ''file'' = Some sample_file \<and>
   filename sample_file \<noteq> [] \<and> allowed_file (filename sample_file) \<and>
   fst (upload_file offline_app sample_env sample_request empty_world) =
     (JObj [(''success'', JBool False),
            (''error'', JStr ''AI model not loaded. System is offline.'')], 500) \<and>
   snd (upload_file offline_app sample_env sample_request empty_world) = empty_world"
  using offline_rejects_valid_upload [OF sample_accepts(3,4,6,7), of "''weights''" sample_env empty_world]
    sample_accepts(3,4,6,7)
  by simp

text \<open>
  C10. The model-loaded flag is tested before any validation of the input: while it is
  false, every request (also one with no file part, with an empty filename or with a
  disallowed extension) gets the 500 answer "AI model not loaded. System is offline." and
  never a 400.
\<close>

theorem offline_check_precedes_validation:
  assumes "\<not> MODEL_LOADED a"
  shows "upload_file a e req w =
           ((JObj [(''success'', JBool False),
                   (''error'', JStr ''AI model not loaded. System is offline.'')], 500), w) \<and>
         snd (fst (upload_file a e req w)) \<noteq> 400"
  using assms by (simp add: upload_file_offline error_response_def)

theorem offline_check_precedes_validation_witness:
  "\<not> MODEL_LOADED offline_app \<and>
   files empty_request ''file'' = None \<and>
   upload_file offline_app sample_env empty_request empty_world =
     ((JObj [(''success'', JBool False),
             (''error'', JStr ''AI model not loaded. System is offline.'')], 500), empty_world) \<and>
   upload_file offline_app sample_env unnamed_request empty_world =
     ((JObj [(''success'', JBool False),
             (''error'', JStr ''AI model not loaded. System is offline.'')], 500), empty_world) \<and>
   upload_file offline_app sample_env gif_request empty_world =
     ((JObj [(''success'', JBool False),
             (''error'', JStr ''AI model not loaded. System is offline.'')], 500), empty_world)"
  using offline_check_precedes_validation [OF sample_accepts(3), of sample_env empty_request empty_world]
    offline_check_precedes_validation [OF sample_accepts(3), of sample_env unnamed_request empty_world]
    offline_check_precedes_validation [OF sample_accepts(3), of sample_env gif_request empty_world]
    sample_accepts(3)
  by (simp add: empty_request_def)

subsection \<open>Invalid uploads\<close>

text \<open>
  C4, as stated, promises status 400 for every request without a file part. With the model
  not loaded the handler answers such a request with 500.
\<close>

theorem invalid_upload_offline_counterexample:
  "files empty_request ''file'' = None \<and>
   snd (fst (upload_file offline_app sample_env empty_request empty_world)) \<noteq> 400"
  by (simp add: upload_file_offline [OF sample_accepts(3)] error_response_def empty_request_def)

text \<open>
  C4, amended. While the model is loaded, a request that lacks a file part, carries an empty
  filename or carries a filename with a disallowed extension is answered with status 400
  and a body \<open>{success: false, error}\<close> holding the fixed message of its case; the world is
  unchanged, so no file is written and the model is not invoked.
\<close>

theorem invalid_upload_rejected:
  assumes "MODEL_LOADED a"
  shows "(files req ''file'' = None \<longrightarrow>
            upload_file a e req w =
              ((JObj [(''success'', JBool False),
                      (''error'', JStr ''No file part in the request. Please select an image.'')],
                400), w)) \<and>
         (files req ''file'' = Some f \<and> filename f = [] \<longrightarrow>
            upload_file a e req w =
              ((JObj [(''success'', JBool False),
                      (''error'', JStr ''No selected file. Please choose an image to upload.'')],
                400), w)) \<and>
         (files req ''file'' = Some f \<and> filename f \<noteq> [] \<and>
          \<not> allowed_file (filename f) \<longrightarrow>
            upload_file a e req w =
              ((JObj [(''success'', JBool False),
                      (''error'', JStr ''Invalid file type. Please upload a supported image format.'')],
                400), w))"
  using assms
  by (simp add: upload_file_no_part upload_file_unnamed upload_file_disallowed error_response_def)

theorem invalid_upload_rejected_witness:
  "MODEL_LOADED working_app \<and>
   files empty_request ''file'' = None \<and>
   upload_file working_app sample_env empty_request empty_world =
     ((JObj [(''success'', JBool False),
             (''error'', JStr ''No file part in the request. Please select an image.'')],
       400), empty_world) \<and>
   files unnamed_request ''file'' = Some \<lparr>filename = [], stream = ''raw''\<rparr> \<and>
   upload_file working_app sample_env unnamed_request empty_world =
     ((JObj [(''success'', JBool False),
             (''error'', JStr ''No selected file. Please choose an image to upload.'')],
       400), empty_world) \<and>
   files gif_request ''file'' = Some \<lparr>filename = ''x.gif'', stream = ''raw''\<rparr> \<and>
   \<not> allowed_file ''x.gif'' \<and>
   upload_file working_app sample_env gif_request empty_world =
     ((JObj [(''success'', JBool False),
             (''error'', JStr ''Invalid file type. Please upload a supported image format.'')],
       400), empty_world)"
proof -
  have g: "\<not> allowed_file ''x.gif''"
    by (simp add: allowed_file_def rsplit1_def lower_def lower_char_def
        ALLOWED_EXTENSIONS_def char_of_eq_iff)
  show ?thesis
    using invalid_upload_rejected [OF sample_accepts(1), where req = empty_request and
          e = sample_env and w = empty_world]
      invalid_upload_rejected [OF sample_accepts(1), where req = unnamed_request and
          f = "\<lparr>filename = [], stream = ''raw''\<rparr>" and e = sample_env and w = empty_world]
      invalid_upload_rejected [OF sample_accepts(1), where req = gif_request and
          f = "\<lparr>filename = ''x.gif'', stream = ''raw''\<rparr>" and e = sample_env and
          w = empty_world]
      sample_accepts(1) g
    by (simp add: empty_request_def unnamed_request_def gif_request_def)
qed

subsection \<open>The success response\<close>

lemma detection_fields:
  "jfield (detection_json (box_detection b)) ''confidence'' = Some (JFloat (conf b))"
  "jfield (detection_json (box_detection b)) ''class_id'' = Some (JInt (py_int (cls b)))"
  "jfield (detection_json (box_detection b)) ''bbox'' = Some (JList (map JFloat (xyxy b)))"
  by (simp_all add: detection_json_def box_detection_def)

text \<open>
  C6. A successful upload (a response whose \<open>success\<close> field is true) has status 200 and a
  body with exactly the fields success, original_image, result_image, detections,
  detection_count and filename. Its detections are the boxes the model returned for the
  stored upload, in the same order, none dropped and none added (no boxes when the model
  reports none), and detection_count is the length of that list. Each detection carries
  the box's confidence and bounding box unchanged and its class index as an integer, equal
  to the model's value whenever that value is a whole number.
\<close>

theorem success_response_fields:
  assumes "upload_file a e req w = ((body, status), w')"
    and "jfield body ''success'' = Some (JBool True)"
  shows "status = 200 \<and>
         set (jkeys body) =
           {''success'', ''original_image'', ''result_image'', ''detections'',
            ''detection_count'', ''filename''} \<and>
         length (jkeys body) = 6 \<and>
         (\<exists>f m results ds.
            files req ''file'' = Some f \<and> model a = Some m \<and>
            m (upload_path e f) (25 / 100) (7 / 10) = Inr results \<and>
            ds = map (\<lambda>b. detection_json (box_detection b))
                   (case boxes results of None \<Rightarrow> [] | Some bs \<Rightarrow> bs) \<and>
            jfield body ''detections'' = Some (JList ds) \<and>
            jfield body ''detection_count'' = Some (JInt (int (length ds)))) \<and>
         (\<forall>b. jfield (detection_json (box_detection b)) ''confidence'' = Some (JFloat (conf b)) \<and>
              jfield (detection_json (box_detection b)) ''bbox'' =
                Some (JList (map JFloat (xyxy b))) \<and>
              jfield (detection_json (box_detection b)) ''class_id'' =
                Some (JInt (py_int (cls b))) \<and>
              (cls b \<in> \<int> \<longrightarrow> real_of_int (py_int (cls b)) = cls b))"
proof -
  from upload_file_success [OF assms] obtain f m results ob rb where
    h: "files req ''file'' = Some f" "model a = Some m"
      "m (upload_path e f) (25 / 100) (7 / 10) = Inr results"
    and st: "status = 200"
    and b: "body = success_body e ob rb results (stored_name e f)"
    by blast
  have d: "jfield body ''detections'' =
      Some (JList (map (\<lambda>b. detection_json (box_detection b))
        (case boxes results of None \<Rightarrow> [] | Some bs \<Rightarrow> bs)))"
    unfolding b by (simp split: option.split)
  have c: "jfield body ''detection_count'' =
      Some (JInt (int (length (map (\<lambda>b. detection_json (box_detection b))
        (case boxes results of None \<Rightarrow> [] | Some bs \<Rightarrow> bs)))))"
    unfolding b by (simp split: option.split)
  have k: "set (jkeys body) =
           {''success'', ''original_image'', ''result_image'', ''detections'',
            ''detection_count'', ''filename''}"
    unfolding b by simp
  have n: "length (jkeys body) = 6"
    unfolding b by simp
  have x: "\<exists>f m results ds.
            files req ''file'' = Some f \<and> model a = Some m \<and>
            m (upload_path e f) (25 / 100) (7 / 10) = Inr results \<and>
            ds = map (\<lambda>b. detection_json (box_detection b))
                   (case boxes results of None \<Rightarrow> [] | Some bs \<Rightarrow> bs) \<and>
            jfield body ''detections'' = Some (JList ds) \<and>
            jfield body ''detection_count'' = Some (JInt (int (length ds)))"
    by (rule exI [of _ f], rule exI [of _ m], rule exI [of _ results],
        rule exI [of _ "map (\<lambda>b. detection_json (box_detection b))
                   (case boxes results of None \<Rightarrow> [] | Some bs \<Rightarrow> bs)"], intro conjI)
      (rule h d c refl)+
  have p: "\<forall>b. jfield (detection_json (box_detection b)) ''confidence'' = Some (JFloat (conf b)) \<and>
              jfield (detection_json (box_detection b)) ''bbox'' =
                Some (JList (map JFloat (xyxy b))) \<and>
              jfield (detection_json (box_detection b)) ''class_id'' =
                Some (JInt (py_int (cls b))) \<and>
              (cls b \<in> \<int> \<longrightarrow> real_of_int (py_int (cls b)) = cls b)"
    by (intro allI conjI impI detection_fields py_int_of_int)
  from st k n x p show ?thesis
    by (intro conjI)
qed

theorem success_response_fields_witness:
  "upload_file working_app sample_env sample_request empty_world =
     ((success_body sample_env ''first'' ''annotated'' sample_results
         ''20250102_030405_000678_x.png'', 200),
      empty_world\<lparr>fs := (fs empty_world)
          (''uploads/20250102_030405_000678_x.png'' \<mapsto> ''first'',
           ''results/detected_20250102_030405_000678_x.jpg'' \<mapsto> ''annotated''),
        trace := trace empty_world @
          [FileSaved ''uploads/20250102_030405_000678_x.png'',
           ModelCalled ''uploads/20250102_030405_000678_x.png'',
           ResultWritten ''results/detected_20250102_030405_000678_x.jpg'']\<rparr>) \<and>
   jfield (success_body sample_env ''first'' ''annotated'' sample_results
         ''20250102_030405_000678_x.png'') ''success'' = Some (JBool True) \<and>
   jfield (success_body sample_env ''first'' ''annotated'' sample_results
         ''20250102_030405_000678_x.png'') ''detection_count'' = Some (JInt 2) \<and>
   jfield (detection_json (box_detection \<lparr>conf = 0.9, cls = 0, xyxy = [1, 2, 3, 4]\<rparr>))
     ''class_id'' = Some (JInt 0)"
proof -
  note run = working_run [of empty_world]
  have ok: "jfield (success_body sample_env ''first'' ''annotated'' sample_results
         ''20250102_030405_000678_x.png'') ''success'' = Some (JBool True)"
    by simp
  note t = success_response_fields [OF run ok]
  from t obtain f m results ds where
    m: "model working_app = Some m"
      "m (upload_path sample_env f) (25 / 100) (7 / 10) = Inr results"
    and ds: "ds = map (\<lambda>b. detection_json (box_detection b))
                   (case boxes results of None \<Rightarrow> [] | Some bs \<Rightarrow> bs)"
    and c: "jfield (success_body sample_env ''first'' ''annotated'' sample_results
         ''20250102_030405_000678_x.png'') ''detection_count'' = Some (JInt (int (length ds)))"
    by (elim conjE exE)
  from t have z: "jfield (detection_json (box_detection \<lparr>conf = 0.9, cls = 0, xyxy = [1, 2, 3, 4]\<rparr>))
         ''class_id'' = Some (JInt (py_int (cls \<lparr>conf = 0.9, cls = 0, xyxy = [1, 2, 3, 4]\<rparr>))) \<and>
       (cls \<lparr>conf = 0.9, cls = 0, xyxy = [1, 2, 3, 4]\<rparr> \<in> \<int> \<longrightarrow>
        real_of_int (py_int (cls \<lparr>conf = 0.9, cls = 0, xyxy = [1, 2, 3, 4]\<rparr>)) =
        cls \<lparr>conf = 0.9, cls = 0, xyxy = [1, 2, 3, 4]\<rparr>)"
    by (elim conjE) (erule allE [of _ "\<lparr>conf = 0.9, cls = 0, xyxy = [1, 2, 3, 4]\<rparr>"], simp)
  from m have "results = sample_results"
    by (simp add: working_app_def startup_def working_model_def) (metis sum.inject(2))
  with ds have "length ds = 2"
    by (simp add: sample_results_def)
  with c have c2: "jfield (success_body sample_env ''first'' ''annotated'' sample_results
         ''20250102_030405_000678_x.png'') ''detection_count'' = Some (JInt 2)"
    by simp
  from z have z2: "jfield (detection_json (box_detection \<lparr>conf = 0.9, cls = 0, xyxy = [1, 2, 3, 4]\<rparr>))
     ''class_id'' = Some (JInt 0)"
    by simp
  from run ok c2 z2 show ?thesis
    by (intro conjI)
qed

subsection \<open>Inference failure\<close>

text \<open>
  C7, as stated, promises that a request on which inference raises leaves no observable
  partial state. The handler saves the upload before it calls the model and never removes
  it: after the failed request the file is on disk under \<open>uploads/\<close>.
\<close>

theorem inference_failure_counterexample:
  "model failing_app = Some failing_model \<and>
   failing_model ''uploads/20250102_030405_000678_x.png'' (25 / 100) (7 / 10) =
     Inl ''cannot identify image file'' \<and>
   fst (upload_file failing_app sample_env sample_request empty_world) =
     detection_failed ''cannot identify image file'' \<and>
   fs empty_world ''uploads/20250102_030405_000678_x.png'' = None \<and>
   fs (snd (upload_file failing_app sample_env sample_request empty_world))
     ''uploads/20250102_030405_000678_x.png'' = Some ''first'' \<and>
   snd (upload_file failing_app sample_env sample_request empty_world) \<noteq> empty_world"
proof -
  have m: "model failing_app = Some failing_model"
    by (simp add: failing_app_def startup_def)
  have r: "failing_model ''uploads/20250102_030405_000678_x.png'' (25 / 100) (7 / 10) =
     Inl ''cannot identify image file''"
    by (simp add: failing_model_def)
  have a: "fs empty_world ''uploads/20250102_030405_000678_x.png'' = None"
    by (simp add: empty_world_def)
  have b: "fs (snd (upload_file failing_app sample_env sample_request empty_world))
     ''uploads/20250102_030405_000678_x.png'' = Some ''first''"
    by (simp add: failing_run)
  have c: "fst (upload_file failing_app sample_env sample_request empty_world) =
     detection_failed ''cannot identify image file''"
    by (simp add: failing_run)
  from a b have "snd (upload_file failing_app sample_env sample_request empty_world) \<noteq> empty_world"
    by (metis option.distinct(1))
  with m r c a b show ?thesis
    by (intro conjI)
qed

text \<open>
  C7, amended. For every accepted upload that was saved and on which the model raises an
  exception, the handler returns status 500 with the body
  \<open>{success: false, error: "Detection process failed: <the exception's message>. Please try
  another image."}\<close>. The response carries no image and no detection, and nothing is written
  under \<open>results/\<close>; the only changes to the world are the uploaded original, which stays
  stored under \<open>uploads/<stored name>\<close>, and the one model invocation.
\<close>

theorem inference_failure_response:
  assumes "MODEL_LOADED a" "files req ''file'' = Some f" "filename f \<noteq> []"
    "allowed_file (filename f)" "save_raises e (upload_path e f) = None"
    and "model a = Some m" "m (upload_path e f) (25 / 100) (7 / 10) = Inl msg"
  shows "upload_file a e req w =
           ((JObj [(''success'', JBool False),
                   (''error'', JStr (''Detection process failed: '' @ msg @
                                      ''. Please try another image.''))], 500),
            w\<lparr>fs := (fs w)(upload_path e f \<mapsto> stream f),
              trace := trace w @ [FileSaved (upload_path e f), ModelCalled (upload_path e f)]\<rparr>)"
proof -
  have "upload_file a e req w =
      detect a e (upload_path e f) (stored_name e f)
        (w\<lparr>fs := (fs w)(upload_path e f \<mapsto> stream f),
           trace := trace w @ [FileSaved (upload_path e f)]\<rparr>)"
    using assms(5) by (simp add: upload_file_accepted [OF assms(1-4)])
  also have "\<dots> =
      (detection_failed msg,
       (w\<lparr>fs := (fs w)(upload_path e f \<mapsto> stream f),
          trace := trace w @ [FileSaved (upload_path e f)]\<rparr>)
        \<lparr>trace := trace (w\<lparr>fs := (fs w)(upload_path e f \<mapsto> stream f),
            trace := trace w @ [FileSaved (upload_path e f)]\<rparr>) @
            [ModelCalled (upload_path e f)]\<rparr>)"
    by (rule detect_raises [OF assms(6,7)])
  also have "\<dots> =
      ((JObj [(''success'', JBool False),
              (''error'', JStr (''Detection process failed: '' @ msg @
                                 ''. Please try another image.''))], 500),
       w\<lparr>fs := (fs w)(upload_path e f \<mapsto> stream f),
         trace := trace w @ [FileSaved (upload_path e f), ModelCalled (upload_path e f)]\<rparr>)"
    by (simp add: detection_failed_def error_response_def)
  finally show ?thesis .
qed

theorem inference_failure_response_witness:
  "MODEL_LOADED failing_app \<and> files sample_request ''file'' = Some sample_file \<and>
   filename sample_file \<noteq> [] \<and> allowed_file (filename sample_file) \<and>
   save_raises sample_env (upload_path sample_env sample_file) = None \<and>
   model failing_app = Some failing_model \<and>
   failing_model (upload_path sample_env sample_file) (25 / 100) (7 / 10) =
     Inl ''cannot identify image file'' \<and>
   upload_file failing_app sample_env sample_request empty_world =
     ((JObj [(''success'', JBool False),
             (''error'', JStr ''Detection process failed: cannot identify image file. Please try another image.'')],
       500),
      empty_world\<lparr>fs := (fs empty_world)(''uploads/20250102_030405_000678_x.png'' \<mapsto> ''first''),
        trace := trace empty_world @
          [FileSaved ''uploads/20250102_030405_000678_x.png'',
           ModelCalled ''uploads/20250102_030405_000678_x.png'']\<rparr>)"
proof -
  have m: "model failing_app = Some failing_model"
    by (simp add: failing_app_def startup_def)
  have r: "failing_model (upload_path sample_env sample_file) (25 / 100) (7 / 10) =
      Inl ''cannot identify image file''"
    by (simp add: failing_model_def)
  note t = inference_failure_response [OF sample_accepts(2,4,6,7,10) m r, of empty_world]
  have "upload_file failing_app sample_env sample_request empty_world =
     ((JObj [(''success'', JBool False),
             (''error'', JStr ''Detection process failed: cannot identify image file. Please try another image.'')],
       500),
      empty_world\<lparr>fs := (fs empty_world)(''uploads/20250102_030405_000678_x.png'' \<mapsto> ''first''),
        trace := trace empty_world @
          [FileSaved ''uploads/20250102_030405_000678_x.png'',
           ModelCalled ''uploads/20250102_030405_000678_x.png'']\<rparr>)"
    unfolding t sample_stored by (simp add: sample_file_def)
  with sample_accepts(2,4,6,7,10) m r show ?thesis
    by (intro conjI)
qed

lemma upload_file_filename:
  assumes "files req ''file'' = Some f"
    and "jfield (fst (fst (upload_file a e req w))) ''success'' = Some (JBool True)"
  shows "jfield (fst (fst (upload_file a e req w))) ''filename'' = Some (JStr (stored_name e f))"
proof -
  obtain body status w' where run: "upload_file a e req w = ((body, status), w')"
    by (metis surj_pair)
  with assms(2) have "jfield body ''success'' = Some (JBool True)"
    by simp
  from upload_file_success [OF run this] obtain g m results ob rb where
    g: "files req ''file'' = Some g"
    and b: "body = success_body e ob rb results (stored_name e g)"
    by blast
  from g assms(1) have "g = f" by simp
  with b have "jfield body ''filename'' = Some (JStr (stored_name e f))"
    by simp
  with run show ?thesis
    by simp
qed

lemma upload_file_written:
  assumes "MODEL_LOADED a" "files req ''file'' = Some f" "filename f \<noteq> []"
    "allowed_file (filename f)" "save_raises e (upload_path e f) = None"
    and "trace (snd (upload_file a e req w)) =
           trace w @ [FileSaved (upload_path e f), ModelCalled (upload_path e f),
                      ResultWritten (result_path e f)]"
  shows "fs (snd (upload_file a e req w)) (result_path e f) \<noteq> None"
  using assms(5,6) detect_written [where a = a and e = e and fn = "stored_name e f" and
        w = "w\<lparr>fs := (fs w)(upload_path e f \<mapsto> stream f),
           trace := trace w @ [FileSaved (upload_path e f)]\<rparr>", OF upload_result_distinct]
  by (simp add: upload_file_accepted [OF assms(1-4)])

lemma upload_file_result_written:
  assumes "MODEL_LOADED a" "files req ''file'' = Some f" "filename f \<noteq> []"
    "allowed_file (filename f)" "save_raises e (upload_path e f) = None"
    and "model a = Some m" "m (upload_path e f) (25 / 100) (7 / 10) = Inr results"
    and "imwrite e (result_path e f) (plot results) = ImwriteWrote bytes"
  shows "fs (snd (upload_file a e req w)) (result_path e f) = Some bytes \<and>
         trace (snd (upload_file a e req w)) =
           trace w @ [FileSaved (upload_path e f), ModelCalled (upload_path e f),
                      ResultWritten (result_path e f)]"
proof -
  have "upload_file a e req w =
      detect a e (upload_path e f) (stored_name e f)
        (w\<lparr>fs := (fs w)(upload_path e f \<mapsto> stream f),
           trace := trace w @ [FileSaved (upload_path e f)]\<rparr>)"
    using assms(5) by (simp add: upload_file_accepted [OF assms(1-4)])
  then have "snd (upload_file a e req w) =
      snd (detect a e (upload_path e f) (stored_name e f)
        (w\<lparr>fs := (fs w)(upload_path e f \<mapsto> stream f),
           trace := trace w @ [FileSaved (upload_path e f)]\<rparr>))"
    by (rule arg_cong)
  also have "\<dots> =
      (w\<lparr>fs := (fs w)(upload_path e f \<mapsto> stream f),
           trace := trace w @ [FileSaved (upload_path e f)]\<rparr>)
        \<lparr>fs := (fs (w\<lparr>fs := (fs w)(upload_path e f \<mapsto> stream f),
              trace := trace w @ [FileSaved (upload_path e f)]\<rparr>))
              (result_path e f \<mapsto> bytes),
         trace := trace (w\<lparr>fs := (fs w)(upload_path e f \<mapsto> stream f),
              trace := trace w @ [FileSaved (upload_path e f)]\<rparr>) @
              [ModelCalled (upload_path e f), ResultWritten (result_path e f)]\<rparr>"
    unfolding detect_imwrite_wrote [OF assms(6,7,8) upload_result_distinct] by (rule snd_conv)
  finally show ?thesis
    by simp
qed

subsection \<open>Stored names\<close>

text \<open>
  C8. For every accepted upload the stored name is the timestamp in the format
  \<^verbatim>\<open>%Y%m%d_%H%M%S_%f\<close> (for a valid clock value: four, two and two digits, an underscore,
  two, two and two digits, an underscore and the six digits of the microsecond), an
  underscore, and the sanitised original filename. The upload is saved under
  \<open>uploads/<stored name>\<close> and a successful response reports that name. The annotated
  result is stored under \<open>results/detected_<stem>.jpg\<close>, where the stem is the stored name
  without its extension, so the result's extension is \<open>.jpg\<close> whatever the upload's was:
  when \<^verbatim>\<open>cv2.imwrite\<close> writes the image the model rendered, the file at that path holds
  exactly the written bytes and the log ends with that write; whenever the log records the
  write, the file is there; and on success a file is at that path and the response's
  \<open>result_image\<close> is its encoding, as \<open>original_image\<close> is the encoding of the stored
  upload. No other path is touched.
\<close>

theorem stored_and_result_names:
  assumes "MODEL_LOADED a" "files req ''file'' = Some f" "filename f \<noteq> []"
    "allowed_file (filename f)"
  shows "(\<forall>msg. save_raises e (upload_path e f) = Some msg \<longrightarrow>
            snd (upload_file a e req w) = w) \<and>
         (save_raises e (upload_path e f) = None \<longrightarrow>
            fs (snd (upload_file a e req w))
              (''uploads/'' @ strftime (now e) @ ''_'' @ secure_filename e (filename f)) =
              Some (stream f) \<and>
            (trace (snd (upload_file a e req w)) = trace w @ [FileSaved (upload_path e f)] \<or>
             trace (snd (upload_file a e req w)) =
               trace w @ [FileSaved (upload_path e f), ModelCalled (upload_path e f)] \<or>
             trace (snd (upload_file a e req w)) =
               trace w @ [FileSaved (upload_path e f), ModelCalled (upload_path e f),
                 ResultWritten (''results/'' @ ''detected_'' @
                   fst (splitext (strftime (now e) @ ''_'' @ secure_filename e (filename f))) @
                   ''.jpg'')])) \<and>
         (\<forall>p. p \<noteq> upload_path e f \<and> p \<noteq> result_path e f \<longrightarrow>
            fs (snd (upload_file a e req w)) p = fs w p) \<and>
         (jfield (fst (fst (upload_file a e req w))) ''success'' = Some (JBool True) \<longrightarrow>
            jfield (fst (fst (upload_file a e req w))) ''filename'' =
              Some (JStr (strftime (now e) @ ''_'' @ secure_filename e (filename f)))) \<and>
         fst (splitext (stored_name e f)) @ snd (splitext (stored_name e f)) = stored_name e f \<and>
         (valid_datetime (now e) \<longrightarrow>
            strftime (now e) =
              digits 4 (year (now e)) @ digits 2 (month (now e)) @ digits 2 (day (now e)) @
              ''_'' @ digits 2 (hour (now e)) @ digits 2 (minute (now e)) @
              digits 2 (second (now e)) @ ''_'' @ digits 6 (microsecond (now e))) \<and>
         (\<forall>m results bytes.
            save_raises e (upload_path e f) = None \<and> model a = Some m \<and>
            m (upload_path e f) (25 / 100) (7 / 10) = Inr results \<and>
            imwrite e (result_path e f) (plot results) = ImwriteWrote bytes \<longrightarrow>
            fs (snd (upload_file a e req w))
              (''results/detected_'' @
                 fst (splitext (strftime (now e) @ ''_'' @ secure_filename e (filename f))) @
                 ''.jpg'') = Some bytes \<and>
            trace (snd (upload_file a e req w)) =
              trace w @ [FileSaved (upload_path e f), ModelCalled (upload_path e f),
                         ResultWritten (result_path e f)]) \<and>
         (save_raises e (upload_path e f) = None \<and>
          trace (snd (upload_file a e req w)) =
            trace w @ [FileSaved (upload_path e f), ModelCalled (upload_path e f),
                       ResultWritten (result_path e f)] \<longrightarrow>
          fs (snd (upload_file a e req w)) (result_path e f) \<noteq> None) \<and>
         (jfield (fst (fst (upload_file a e req w))) ''success'' = Some (JBool True) \<longrightarrow>
            fs (snd (upload_file a e req w)) (upload_path e f) = Some (stream f) \<and>
            jfield (fst (fst (upload_file a e req w))) ''original_image'' =
              Some (JStr (b64encode e (stream f))) \<and>
            (\<exists>rb. fs (snd (upload_file a e req w)) (result_path e f) = Some rb \<and>
                  jfield (fst (fst (upload_file a e req w))) ''result_image'' =
                    Some (JStr (b64encode e rb))))"
proof -
  have 6: "valid_datetime (now e) \<longrightarrow>
            strftime (now e) =
              digits 4 (year (now e)) @ digits 2 (month (now e)) @ digits 2 (day (now e)) @
              ''_'' @ digits 2 (hour (now e)) @ digits 2 (minute (now e)) @
              digits 2 (second (now e)) @ ''_'' @ digits 6 (microsecond (now e))"
    by (intro impI strftime_digits)
  have 1: "\<forall>msg. save_raises e (upload_path e f) = Some msg \<longrightarrow>
            snd (upload_file a e req w) = w"
    by (simp add: upload_file_save_raises [OF assms])
  have 2: "save_raises e (upload_path e f) = None \<longrightarrow>
            fs (snd (upload_file a e req w))
              (''uploads/'' @ strftime (now e) @ ''_'' @ secure_filename e (filename f)) =
              Some (stream f) \<and>
            (trace (snd (upload_file a e req w)) = trace w @ [FileSaved (upload_path e f)] \<or>
             trace (snd (upload_file a e req w)) =
               trace w @ [FileSaved (upload_path e f), ModelCalled (upload_path e f)] \<or>
             trace (snd (upload_file a e req w)) =
               trace w @ [FileSaved (upload_path e f), ModelCalled (upload_path e f),
                 ResultWritten (''results/'' @ ''detected_'' @
                   fst (splitext (strftime (now e) @ ''_'' @ secure_filename e (filename f))) @
                   ''.jpg'')])"
    using upload_file_stored [OF assms, of e w] upload_file_trace_saved [OF assms, of e w]
    by simp
  have 3: "\<forall>p. p \<noteq> upload_path e f \<and> p \<noteq> result_path e f \<longrightarrow>
            fs (snd (upload_file a e req w)) p = fs w p"
    using upload_file_frame [OF assms, of _ e w] by blast
  have 4: "jfield (fst (fst (upload_file a e req w))) ''success'' = Some (JBool True) \<longrightarrow>
            jfield (fst (fst (upload_file a e req w))) ''filename'' =
              Some (JStr (strftime (now e) @ ''_'' @ secure_filename e (filename f)))"
    using upload_file_filename [OF assms(2), of a e w] by simp
  have 5: "fst (splitext (stored_name e f)) @ snd (splitext (stored_name e f)) = stored_name e f"
    by (rule splitext_parts)
  have 7: "\<forall>m results bytes.
            save_raises e (upload_path e f) = None \<and> model a = Some m \<and>
            m (upload_path e f) (25 / 100) (7 / 10) = Inr results \<and>
            imwrite e (result_path e f) (plot results) = ImwriteWrote bytes \<longrightarrow>
            fs (snd (upload_file a e req w))
              (''results/detected_'' @
                 fst (splitext (strftime (now e) @ ''_'' @ secure_filename e (filename f))) @
                 ''.jpg'') = Some bytes \<and>
            trace (snd (upload_file a e req w)) =
              trace w @ [FileSaved (upload_path e f), ModelCalled (upload_path e f),
                         ResultWritten (result_path e f)]"
  proof (intro allI impI, elim conjE)
    fix m results bytes
    assume "save_raises e (upload_path e f) = None" "model a = Some m"
      "m (upload_path e f) (25 / 100) (7 / 10) = Inr results"
      "imwrite e (result_path e f) (plot results) = ImwriteWrote bytes"
    then show "fs (snd (upload_file a e req w))
              (''results/detected_'' @
                 fst (splitext (strftime (now e) @ ''_'' @ secure_filename e (filename f))) @
                 ''.jpg'') = Some bytes \<and>
            trace (snd (upload_file a e req w)) =
              trace w @ [FileSaved (upload_path e f), ModelCalled (upload_path e f),
                         ResultWritten (result_path e f)]"
      by (rule upload_file_result_written [OF assms])
  qed
  have 8: "save_raises e (upload_path e f) = None \<and>
          trace (snd (upload_file a e req w)) =
            trace w @ [FileSaved (upload_path e f), ModelCalled (upload_path e f),
                       ResultWritten (result_path e f)] \<longrightarrow>
          fs (snd (upload_file a e req w)) (result_path e f) \<noteq> None"
  proof (intro impI, elim conjE)
    assume "save_raises e (upload_path e f) = None"
      "trace (snd (upload_file a e req w)) =
            trace w @ [FileSaved (upload_path e f), ModelCalled (upload_path e f),
                       ResultWritten (result_path e f)]"
    then show "fs (snd (upload_file a e req w)) (result_path e f) \<noteq> None"
      by (rule upload_file_written [OF assms])
  qed
  have 9: "jfield (fst (fst (upload_file a e req w))) ''success'' = Some (JBool True) \<longrightarrow>
            fs (snd (upload_file a e req w)) (upload_path e f) = Some (stream f) \<and>
            jfield (fst (fst (upload_file a e req w))) ''original_image'' =
              Some (JStr (b64encode e (stream f))) \<and>
            (\<exists>rb. fs (snd (upload_file a e req w)) (result_path e f) = Some rb \<and>
                  jfield (fst (fst (upload_file a e req w))) ''result_image'' =
                    Some (JStr (b64encode e rb)))"
  proof
    assume ok: "jfield (fst (fst (upload_file a e req w))) ''success'' = Some (JBool True)"
    obtain body status w' where run: "upload_file a e req w = ((body, status), w')"
      by (metis surj_pair)
    with ok have "jfield body ''success'' = Some (JBool True)"
      by simp
    from upload_file_success [OF run this] obtain g m results ob rb where
      g: "files req ''file'' = Some g"
      and sv: "save_raises e (upload_path e g) = None"
      and b: "body = success_body e ob rb results (stored_name e g)"
      and o: "fs w' (upload_path e g) = Some ob"
      and r: "fs w' (result_path e g) = Some rb"
      by blast
    from g assms(2) have gf: "g = f" by simp
    from upload_file_stored [OF assms, of e w] sv gf run
    have st: "fs w' (upload_path e f) = Some (stream f)"
      by simp
    with o gf have ob: "ob = stream f"
      by simp
    from b have "jfield body ''original_image'' = Some (JStr (b64encode e ob))"
      "jfield body ''result_image'' = Some (JStr (b64encode e rb))"
      by simp_all
    with ob have i: "jfield body ''original_image'' = Some (JStr (b64encode e (stream f)))"
      "jfield body ''result_image'' = Some (JStr (b64encode e rb))"
      by simp_all
    from r gf have r': "fs w' (result_path e f) = Some rb"
      by simp
    from r' i(2) have x: "\<exists>rb. fs w' (result_path e f) = Some rb \<and>
        jfield body ''result_image'' = Some (JStr (b64encode e rb))"
      by blast
    from st i(1) x run show "fs (snd (upload_file a e req w)) (upload_path e f) = Some (stream f) \<and>
            jfield (fst (fst (upload_file a e req w))) ''original_image'' =
              Some (JStr (b64encode e (stream f))) \<and>
            (\<exists>rb. fs (snd (upload_file a e req w)) (result_path e f) = Some rb \<and>
                  jfield (fst (fst (upload_file a e req w))) ''result_image'' =
                    Some (JStr (b64encode e rb)))"
      by simp
  qed
  from 1 2 3 4 5 6 7 8 9 show ?thesis
    by (intro conjI)
qed

theorem stored_and_result_names_witness:
  "MODEL_LOADED working_app \<and> files sample_request ''file'' = Some sample_file \<and>
   filename sample_file \<noteq> [] \<and> allowed_file (filename sample_file) \<and>
   save_raises sample_env (upload_path sample_env sample_file) = None \<and>
   fs (snd (upload_file working_app sample_env sample_request empty_world))
     ''uploads/20250102_030405_000678_x.png'' = Some ''first'' \<and>
   jfield (fst (fst (upload_file working_app sample_env sample_request empty_world)))
     ''success'' = Some (JBool True) \<and>
   jfield (fst (fst (upload_file working_app sample_env sample_request empty_world)))
     ''filename'' = Some (JStr ''20250102_030405_000678_x.png'') \<and>
   trace (snd (upload_file working_app sample_env sample_request empty_world)) =
     [FileSaved ''uploads/20250102_030405_000678_x.png'',
      ModelCalled ''uploads/20250102_030405_000678_x.png'',
      ResultWritten ''results/detected_20250102_030405_000678_x.jpg''] \<and>
   valid_datetime (now sample_env) \<and>
   strftime (now sample_env) = ''20250102_030405_000678'' \<and>
   model working_app = Some working_model \<and>
   working_model (upload_path sample_env sample_file) (25 / 100) (7 / 10) =
     Inr sample_results \<and>
   imwrite sample_env (result_path sample_env sample_file) (plot sample_results) =
     ImwriteWrote ''annotated'' \<and>
   fs (snd (upload_file working_app sample_env sample_request empty_world))
     ''results/detected_20250102_030405_000678_x.jpg'' = Some ''annotated'' \<and>
   jfield (fst (fst (upload_file working_app sample_env sample_request empty_world)))
     ''original_image'' = Some (JStr ''first'')"
proof -
  note t = stored_and_result_names [OF sample_accepts(1,4,6,7), of sample_env empty_world]
  note sv = sample_accepts(10) [of "upload_path sample_env sample_file"]
  have v: "valid_datetime (now sample_env)"
    by (simp add: valid_datetime_def sample_env_def sample_now_def)
  from t [THEN conjunct2, THEN conjunct2, THEN conjunct2, THEN conjunct2, THEN conjunct2,
      THEN conjunct1, THEN mp, OF v]
  have "strftime (now sample_env) =
      digits 4 (year (now sample_env)) @ digits 2 (month (now sample_env)) @
      digits 2 (day (now sample_env)) @ ''_'' @ digits 2 (hour (now sample_env)) @
      digits 2 (minute (now sample_env)) @ digits 2 (second (now sample_env)) @ ''_'' @
      digits 6 (microsecond (now sample_env))" .
  also have "\<dots> = ''20250102_030405_000678''"
    by code_simp
  finally have s: "strftime (now sample_env) = ''20250102_030405_000678''" .
  have ok: "jfield (fst (fst (upload_file working_app sample_env sample_request empty_world)))
     ''success'' = Some (JBool True)"
    by (simp add: working_run)
  from t [THEN conjunct2, THEN conjunct1, THEN mp, OF sv, THEN conjunct1]
  have a: "fs (snd (upload_file working_app sample_env sample_request empty_world))
     (''uploads/'' @ strftime (now sample_env) @ ''_'' @
        secure_filename sample_env (filename sample_file)) = Some (stream sample_file)" .
  from t [THEN conjunct2, THEN conjunct2, THEN conjunct2, THEN conjunct1, THEN mp, OF ok]
  have b: "jfield (fst (fst (upload_file working_app sample_env sample_request empty_world)))
     ''filename'' =
       Some (JStr (strftime (now sample_env) @ ''_'' @
         secure_filename sample_env (filename sample_file)))" .
  have a2: "fs (snd (upload_file working_app sample_env sample_request empty_world))
     ''uploads/20250102_030405_000678_x.png'' = Some ''first''"
    using a unfolding sample_stored by (simp add: sample_file_def)
  have b2: "jfield (fst (fst (upload_file working_app sample_env sample_request empty_world)))
     ''filename'' = Some (JStr ''20250102_030405_000678_x.png'')"
    using b unfolding sample_stored .
  have c: "trace (snd (upload_file working_app sample_env sample_request empty_world)) =
     [FileSaved ''uploads/20250102_030405_000678_x.png'',
      ModelCalled ''uploads/20250102_030405_000678_x.png'',
      ResultWritten ''results/detected_20250102_030405_000678_x.jpg'']"
    by (simp add: working_run empty_world_def)
  have m: "model working_app = Some working_model"
    by (simp add: working_app_def startup_def)
  have r: "working_model (upload_path sample_env sample_file) (25 / 100) (7 / 10) =
     Inr sample_results"
    by (simp add: working_model_def)
  have i: "imwrite sample_env (result_path sample_env sample_file) (plot sample_results) =
     ImwriteWrote ''annotated''"
    by (simp add: sample_env_def sample_results_def)
  from sv m r i have h: "save_raises sample_env (upload_path sample_env sample_file) = None \<and>
      model working_app = Some working_model \<and>
      working_model (upload_path sample_env sample_file) (25 / 100) (7 / 10) =
        Inr sample_results \<and>
      imwrite sample_env (result_path sample_env sample_file) (plot sample_results) =
        ImwriteWrote ''annotated''"
    by (intro conjI)
  from t [THEN conjunct2, THEN conjunct2, THEN conjunct2, THEN conjunct2, THEN conjunct2,
      THEN conjunct2, THEN conjunct1, THEN spec, THEN spec, THEN spec, THEN mp, OF h,
      THEN conjunct1]
  have d: "fs (snd (upload_file working_app sample_env sample_request empty_world))
     (''results/detected_'' @
        fst (splitext (strftime (now sample_env) @ ''_'' @
          secure_filename sample_env (filename sample_file))) @ ''.jpg'') = Some ''annotated''" .
  have d2: "fs (snd (upload_file working_app sample_env sample_request empty_world))
     ''results/detected_20250102_030405_000678_x.jpg'' = Some ''annotated''"
    using d unfolding sample_stored sample_splitext by simp
  from t [THEN conjunct2, THEN conjunct2, THEN conjunct2, THEN conjunct2, THEN conjunct2,
      THEN conjunct2, THEN conjunct2, THEN conjunct2, THEN mp, OF ok, THEN conjunct2,
      THEN conjunct1]
  have o: "jfield (fst (fst (upload_file working_app sample_env sample_request empty_world)))
     ''original_image'' = Some (JStr (b64encode sample_env (stream sample_file)))" .
  have o2: "jfield (fst (fst (upload_file working_app sample_env sample_request empty_world)))
     ''original_image'' = Some (JStr ''first'')"
    using o by (simp add: sample_env_def sample_file_def)
  from sample_accepts(1,4,6,7) sv a2 ok b2 c v s m r i d2 o2
  show ?thesis
    by (intro conjI)
qed

subsection \<open>Uniqueness of stored names\<close>

text \<open>
  C9. Two accepted uploads that are handled within the same microsecond and carry identical
  original filenames must get distinct stored names, so that neither overwrites the other.
  The handler does not achieve this, although its own comment says that the upload is saved
  with a timestamp to prevent overwrites: the stored name is made of the clock value and
  the sanitised filename only. At the clock value 2025-01-02 03:04:05.000678 two uploads of
  \<open>x.png\<close>, with contents \<open>first\<close> and \<open>second\<close>, are both reported under the name
  \<open>20250102_030405_000678_x.png\<close>; the file under \<open>uploads/\<close> holds \<open>first\<close> after the first
  request and \<open>second\<close> after the second.
\<close>

theorem same_instant_uploads_collide:
  "filename sample_file = filename second_file \<and>
   stream sample_file \<noteq> stream second_file \<and>
   jfield (fst (fst (upload_file working_app sample_env sample_request empty_world)))
     ''filename'' = Some (JStr ''20250102_030405_000678_x.png'') \<and>
   jfield (fst (fst (upload_file working_app sample_env second_request
       (snd (upload_file working_app sample_env sample_request empty_world)))))
     ''filename'' = Some (JStr ''20250102_030405_000678_x.png'') \<and>
   fs (snd (upload_file working_app sample_env sample_request empty_world))
     ''uploads/20250102_030405_000678_x.png'' = Some ''first'' \<and>
   fs (snd (upload_file working_app sample_env second_request
       (snd (upload_file working_app sample_env sample_request empty_world))))
     ''uploads/20250102_030405_000678_x.png'' = Some ''second''"
  by (simp add: working_run second_run sample_file_def second_file_def)

end
